theory Spec2Isabelle
  imports Main "HOL-Library.Sublist"
begin

section \<open>File system and external tools\<close>

text \<open>
  The deployment scripts are bash programs whose whole effect is on the file system and on
  their exit status. A file system is a finite table from absolute paths (lists of
  components) to entries; a regular file carries its byte content. The empty path is the
  root directory and doubles as the empty string of an unset shell variable.
\<close>

datatype entry = File string | Dir

type_synonym path = "string list"
type_synonym fs = "(path \<times> entry) list"

definition lookup :: "fs \<Rightarrow> path \<Rightarrow> entry option" where
  "lookup t p = map_of t p"

text \<open>\<^verbatim>\<open>[[ -d p ]]\<close> and \<^verbatim>\<open>[[ -f p ]]\<close>.\<close>

definition is_dir :: "fs \<Rightarrow> path \<Rightarrow> bool" where
  "is_dir t p = (p = [] \<or> lookup t p = Some Dir)"

definition is_file :: "fs \<Rightarrow> path \<Rightarrow> bool" where
  "is_file t p = (case lookup t p of Some (File c) \<Rightarrow> True | _ \<Rightarrow> False)"

definition has_children :: "fs \<Rightarrow> path \<Rightarrow> bool" where
  "has_children t d = list_ex (\<lambda>(p, e). strict_prefix d p) t"

definition basename :: "path \<Rightarrow> string" where
  "basename p = (case rev p of [] \<Rightarrow> [] | x # xs \<Rightarrow> x)"

definition dirname :: "path \<Rightarrow> path" where
  "dirname p = butlast p"

text \<open>\<^verbatim>\<open>"$DIR.suffix"\<close>: a sibling of the directory, named by appending to its last component.\<close>

definition with_suffix :: "path \<Rightarrow> string \<Rightarrow> path" where
  "with_suffix p s = (case rev p of [] \<Rightarrow> [s] | x # xs \<Rightarrow> rev xs @ [x @ s])"

text \<open>The entries at and below \<open>src\<close>, re-rooted at \<open>dst\<close>.\<close>

definition copy_tree :: "path \<Rightarrow> path \<Rightarrow> fs \<Rightarrow> fs" where
  "copy_tree src dst t = map (\<lambda>(p, e). (dst @ drop (length src) p, e)) (filter (\<lambda>(p, e). prefix src p) t)"

text \<open>Writing entries: an entry of the same path is replaced.\<close>

definition overwrite :: "fs \<Rightarrow> fs \<Rightarrow> fs" where
  "overwrite t new = filter (\<lambda>(p, e). p \<notin> set (map fst new)) t @ new"

definition write_file :: "path \<Rightarrow> string \<Rightarrow> fs \<Rightarrow> fs" where
  "write_file p c t = overwrite t [(p, File c)]"

definition rm_rf :: "path \<Rightarrow> fs \<Rightarrow> fs" where
  "rm_rf d t = filter (\<lambda>(p, e). \<not> prefix d p) t"

text \<open>\<^verbatim>\<open>mkdir -p\<close>: every missing ancestor and the directory itself are created.\<close>

definition mkdir_p :: "path \<Rightarrow> fs \<Rightarrow> fs" where
  "mkdir_p d t = t @ map (\<lambda>q. (q, Dir)) (filter (\<lambda>q. q \<noteq> [] \<and> lookup t q = None) (prefixes d))"

text \<open>
  A command yields its exit status and the new file system. \<^verbatim>\<open>cp -r SRC DST\<close> copies into
  \<open>DST/basename SRC\<close> when \<open>DST\<close> is an existing directory, and creates \<open>DST\<close> otherwise.
  \<^verbatim>\<open>mv SRC DST\<close> follows the same rule for its destination and refuses to replace a
  non-empty directory.
\<close>

definition cp_r :: "path \<Rightarrow> path \<Rightarrow> fs \<Rightarrow> nat \<times> fs" where
  "cp_r src dst t =
     (if lookup t src = None \<or> \<not> is_dir t (dirname dst) then (1, t)
      else let d = (if is_dir t dst then dst @ [basename src] else dst)
           in (0, overwrite t (copy_tree src d t)))"

definition mv :: "path \<Rightarrow> path \<Rightarrow> fs \<Rightarrow> nat \<times> fs" where
  "mv src dst t =
     (let d = (if is_dir t dst then dst @ [basename src] else dst)
      in if lookup t src = None \<or> prefix src d \<or> has_children t d \<or> \<not> is_dir t (dirname d)
         then (1, t)
         else (0, filter (\<lambda>(p, e). \<not> prefix src p \<and> p \<noteq> d) t @ copy_tree src d t))"

text \<open>The shape of a file system: its paths and which of them are directories.\<close>

definition shape :: "fs \<Rightarrow> (path \<times> bool) list" where
  "shape t = map (\<lambda>(p, e). (p, e = Dir)) t"

text \<open>\<^verbatim>\<open>find -name PATTERN\<close>, for the patterns of the scripts: \<^verbatim>\<open>*\<close> is any run of characters.\<close>

fun glob :: "string \<Rightarrow> string \<Rightarrow> bool" where
  "glob [] s = (s = [])"
| "glob (c # cs) s =
     (if c = CHR ''*'' then glob cs s \<or> (case s of [] \<Rightarrow> False | x # xs \<Rightarrow> glob (c # cs) xs)
      else (case s of [] \<Rightarrow> False | x # xs \<Rightarrow> (c = CHR ''?'' \<or> c = x) \<and> glob cs xs))"

subsection \<open>rsync\<close>

text \<open>
  Filter rules are read the way rsync reads the patterns of \<^verbatim>\<open>--exclude\<close> and
  \<^verbatim>\<open>--include\<close>. A trailing slash restricts a pattern to directories. A pattern without
  a slash and without \<^verbatim>\<open>**\<close> is matched against the last component of a path; any other
  pattern against the path from the root of the transfer: from its start when the
  pattern begins with a slash, else against its last components (as many as the pattern
  has), or after any slash when the pattern holds \<^verbatim>\<open>**\<close>. \<^verbatim>\<open>*\<close> stands for any run of
  characters without a slash, \<^verbatim>\<open>**\<close> for any run, \<^verbatim>\<open>?\<close> for one character other than a
  slash, \<^verbatim>\<open>[...]\<close> for a character class (ranges, negation by \<^verbatim>\<open>!\<close> or \<^verbatim>\<open>^\<close>, named
  classes); a backslash quotes the next character of a pattern with wildcards. A pattern
  ending in \<^verbatim>\<open>/***\<close> matches the directory as well as what is below it.
\<close>

datatype rule = Include string | Exclude string

definition joined :: "path \<Rightarrow> string" where
  "joined r = (case r of [] \<Rightarrow> [] | c # cs \<Rightarrow> c @ concat (map (\<lambda>x. CHR ''/'' # x) cs))"

definition ascii :: "char \<Rightarrow> nat" where
  "ascii c = of_char c"

definition between :: "nat \<Rightarrow> char \<Rightarrow> nat \<Rightarrow> bool" where
  "between lo c hi = (lo \<le> ascii c \<and> ascii c \<le> hi)"

definition named_class :: "string \<Rightarrow> char \<Rightarrow> bool option" where
  "named_class name x =
     (let upper = between 65 x 90; lower = between 97 x 122; numeric = between 48 x 57;
          graph = between 33 x 126
      in if name = ''alnum'' then Some (upper \<or> lower \<or> numeric)
         else if name = ''alpha'' then Some (upper \<or> lower)
         else if name = ''blank'' then Some (ascii x = 32 \<or> ascii x = 9)
         else if name = ''cntrl'' then Some (ascii x < 32 \<or> ascii x = 127)
         else if name = ''digit'' then Some numeric
         else if name = ''graph'' then Some graph
         else if name = ''lower'' then Some lower
         else if name = ''print'' then Some (between 32 x 126)
         else if name = ''punct'' then Some (graph \<and> \<not> (upper \<or> lower \<or> numeric))
         else if name = ''space'' then Some (ascii x = 32 \<or> between 9 x 13)
         else if name = ''upper'' then Some upper
         else if name = ''xdigit'' then Some (numeric \<or> between 65 x 70 \<or> between 97 x 102)
         else None)"

text \<open>
  The items of a character class, read up to the closing bracket: whether the character
  \<open>x\<close> is among them, and the rest of the pattern. \<open>None\<close> is a class that does not end or
  names an unknown class; such a pattern matches nothing.
\<close>

definition found :: "bool \<Rightarrow> (bool \<times> string) option \<Rightarrow> (bool \<times> string) option" where
  "found b res = (case res of None \<Rightarrow> None | Some (m, rest) \<Rightarrow> Some (b \<or> m, rest))"

function items :: "char \<Rightarrow> char option \<Rightarrow> bool \<Rightarrow> string \<Rightarrow> (bool \<times> string) option" where
  "items x prev first [] = None"
| "items x prev first (c # cs) =
     (if c = CHR '']'' \<and> \<not> first then Some (False, cs)
      else if c = CHR 0x5C then
        (case cs of [] \<Rightarrow> None | d # ds \<Rightarrow> found (x = d) (items x (Some d) False ds))
      else if c = CHR ''-'' \<and> prev \<noteq> None \<and> cs \<noteq> [] \<and> hd cs \<noteq> CHR '']'' then
        (case cs of
           [] \<Rightarrow> None
         | d # ds \<Rightarrow>
             if d = CHR 0x5C
             then (case ds of [] \<Rightarrow> None
                   | e # es \<Rightarrow> found (ascii (the prev) \<le> ascii x \<and> ascii x \<le> ascii e) (items x None False es))
             else found (ascii (the prev) \<le> ascii x \<and> ascii x \<le> ascii d) (items x None False ds))
      else if c = CHR ''['' \<and> take 1 cs = '':'' then
        (let name = takeWhile (\<lambda>y. y \<noteq> CHR '']'') (tl cs);
             rest = dropWhile (\<lambda>y. y \<noteq> CHR '']'') (tl cs)
         in if rest = [] then None
            else if name \<noteq> [] \<and> last name = CHR '':''
            then (case named_class (butlast name) x of
                    None \<Rightarrow> None
                  | Some b \<Rightarrow> found b (items x None False (tl rest)))
            else found (x = c) (items x (Some c) False cs))
      else found (x = c) (items x (Some c) False cs))"
  by pat_completeness auto
termination
proof (relation "measure (\<lambda>(x, prev, first, p). length p)")
  fix x :: char and prev :: "char option" and first :: bool and c :: char and cs name rest :: string
  assume "name = takeWhile (\<lambda>y. y \<noteq> CHR '']'') (tl cs)" "rest = dropWhile (\<lambda>y. y \<noteq> CHR '']'') (tl cs)"
  then have "length (tl rest) \<le> length cs"
    using length_dropWhile_le [of "\<lambda>y. y \<noteq> CHR '']''" "tl cs"] by simp
  then show "((x, None, False, tl rest), (x, prev, first, c # cs)) \<in> measure (\<lambda>(x, prev, first, p). length p)"
    by simp
qed auto

definition bracket :: "char \<Rightarrow> string \<Rightarrow> (bool \<times> string) option" where
  "bracket x p =
     (let negated = (take 1 p = ''^'' \<or> take 1 p = ''!'')
      in case items x None True (if negated then tl p else p) of
           None \<Rightarrow> None
         | Some (m, rest) \<Rightarrow> Some (m \<noteq> negated \<and> x \<noteq> CHR ''/'', rest))"

text \<open>The wildcard match of a pattern against a text.\<close>

function wild :: "string \<Rightarrow> string \<Rightarrow> bool" where
  "wild [] s = (s = [])"
| "wild (c # cs) s =
     (if c = CHR ''*'' then
        (let special = (take 1 cs = ''*'');
             rest = dropWhile (\<lambda>x. x = CHR ''*'') cs
         in if rest = [] then special \<or> CHR ''/'' \<notin> set s
            else list_ex (\<lambda>k. (special \<or> CHR ''/'' \<notin> set (take k s)) \<and> wild rest (drop k s)) [0..<length s])
      else case s of
             [] \<Rightarrow> False
           | x # xs \<Rightarrow>
               if c = CHR ''?'' then x \<noteq> CHR ''/'' \<and> wild cs xs
               else if c = CHR ''['' then (case bracket x cs of None \<Rightarrow> False | Some (m, rest) \<Rightarrow> m \<and> wild rest xs)
               else if c = CHR 0x5C then (case cs of [] \<Rightarrow> False | d # ds \<Rightarrow> x = d \<and> wild ds xs)
               else c = x \<and> wild cs xs)"
  by pat_completeness auto
termination
proof -
  have found_rest: "\<exists>m'. res = Some (m', rest)" if "found b res = Some (m, rest)" for b res m rest
    using that by (auto simp add: found_def split: option.splits)
  have items_shorter: "length rest < length p" if "items x prev first p = Some (m, rest)"
    for x prev first p m rest
    using that
  proof (induction x prev first p arbitrary: m rest rule: items.induct)
    case (1 x prev first)
    then show ?case by simp
  next
    case (2 x prev first c cs)
    have drop_le: "length (tl (dropWhile (\<lambda>y. y \<noteq> CHR '']'') (tl cs))) \<le> length cs"
      using length_dropWhile_le [of "\<lambda>y. y \<noteq> CHR '']''" "tl cs"] by simp
    show ?case
      using "2.prems" "2.IH" drop_le
      by (fastforce simp add: Let_def dest!: found_rest split: if_splits list.splits option.splits)
  qed
  have bracket_shorter: "length rest < Suc (length p)" if b: "bracket x p = Some (m, rest)" for x p m rest
  proof -
    let ?q = "if take 1 p = ''^'' \<or> take 1 p = ''!'' then tl p else p"
    from b obtain m' where "items x None True ?q = Some (m', rest)"
      by (auto simp add: bracket_def Let_def split: option.splits)
    then have "length rest < length ?q"
      by (rule items_shorter)
    also have "length ?q \<le> length p"
      by simp
    finally show ?thesis
      by simp
  qed
  show ?thesis
  proof (relation "measure (\<lambda>(p, s). length p)")
    fix c :: char and cs rest s :: string
    assume "rest = dropWhile (\<lambda>x. x = CHR ''*'') cs"
    then show "\<And>k. ((rest, drop k s), (c # cs, s)) \<in> measure (\<lambda>(p, s). length p)"
      using length_dropWhile_le [of "\<lambda>x. x = CHR ''*''" cs] by simp
  qed (auto dest: bracket_shorter)
qed

text \<open>The text itself and what follows each of its slashes.\<close>

definition starts :: "string \<Rightarrow> string list" where
  "starts s = s # map (\<lambda>k. drop (Suc k) s) (filter (\<lambda>k. s ! k = CHR ''/'') [0..<length s])"

text \<open>Whether a pattern matches the entry at the path \<open>r\<close>, relative to the root of the transfer.\<close>

definition rule_matches :: "string \<Rightarrow> bool \<Rightarrow> path \<Rightarrow> bool" where
  "rule_matches pat isdir r =
     (let dironly = (1 < length pat \<and> last pat = CHR ''/'');
          p = (if dironly then butlast pat else pat);
          wildchars = list_ex (\<lambda>c. c \<in> set ''*[?'') p;
          wild2 = list_ex (prefix ''**'') (suffixes p);
          wild2_prefix = prefix ''**'' p;
          wild3_suffix = suffix ''***'' p;
          slashes = length (filter (\<lambda>c. c = CHR ''/'') p);
          anchored = (take 1 p = ''/'');
          body = (if anchored then tl p else p);
          name = (if slashes = 0 \<and> \<not> wild2 then last r else joined r);
          subject = (if wild2_prefix then ''/'' else []) @ name @ (if isdir \<and> wild3_suffix then ''/'' else [])
      in if r = [] then False
         else if dironly \<and> \<not> isdir then False
         else if wildchars then
           (if \<not> anchored \<and> slashes \<noteq> 0 \<and> \<not> wild2
            then Suc slashes \<le> length r \<and> wild body (joined (drop (length r - Suc slashes) r))
            else if \<not> anchored \<and> \<not> wild2_prefix \<and> wild2 then list_ex (wild body) (starts subject)
            else wild body subject)
         else if anchored then name = body
         else suffix body name \<and>
              (length name = length body \<or> name ! (length name - Suc (length body)) = CHR ''/''))"

text \<open>
  The first rule that matches an entry decides; an entry that no rule matches is
  included. rsync walks a tree from its root and does not descend into an excluded
  directory, so a path is excluded when the entry at one of its levels is. The levels
  counted are those deeper than \<open>k\<close>.
\<close>

fun excluded_entry :: "rule list \<Rightarrow> bool \<Rightarrow> path \<Rightarrow> bool" where
  "excluded_entry [] isdir r = False"
| "excluded_entry (Include pat # rs) isdir r =
     (if rule_matches pat isdir r then False else excluded_entry rs isdir r)"
| "excluded_entry (Exclude pat # rs) isdir r =
     (if rule_matches pat isdir r then True else excluded_entry rs isdir r)"

definition excluded_below :: "rule list \<Rightarrow> nat \<Rightarrow> path \<Rightarrow> entry \<Rightarrow> bool" where
  "excluded_below rs k r e =
     list_ex (\<lambda>j. excluded_entry rs (j < length r \<or> e = Dir) (take j r)) [Suc k..<Suc (length r)]"

definition excluded :: "rule list \<Rightarrow> path \<Rightarrow> entry \<Rightarrow> bool" where
  "excluded rs r e = excluded_below rs 0 r e"

text \<open>
  \<^verbatim>\<open>rsync --archive [--delete] RULES SRC/ DST/\<close>. The file list of the sender is every entry
  below \<open>SRC\<close> that the rules do not exclude. The receiver creates what it lacks. A regular
  file that it already has with the same size and the same modification time is left as
  it is; modification times are not part of the file system here, so whether two files
  carry the same one is the parameter \<open>same_mtime\<close>. A file of the receiver gives way to a
  directory of the sender. A directory of the receiver gives way to a file of the sender
  only once it is empty: without \<^verbatim>\<open>--delete\<close> it has to be empty already, with \<^verbatim>\<open>--delete\<close>
  its content is removed first, except what the rules exclude; when the directory cannot
  be emptied the file is not written and rsync ends with status 23.

  With \<^verbatim>\<open>--delete\<close>, an entry of the receiver below \<open>DST\<close> that is not in the file list is
  removed, unless the rules exclude it or it is a directory that holds an excluded entry:
  an excluded entry of the receiver is never removed. rsync creates \<open>DST\<close> itself when only
  its last component is missing. It fails with status 23 when \<open>SRC\<close> is no directory and
  with status 11 when \<open>DST\<close> cannot be created. Every entry is taken to be readable and
  every directory writable; a file system holds regular files and directories only.
\<close>

definition transferred :: "rule list \<Rightarrow> path \<Rightarrow> path \<Rightarrow> fs \<Rightarrow> fs" where
  "transferred rs src dst t =
     map (\<lambda>(p, e). (dst @ drop (length src) p, e))
       (filter (\<lambda>(p, e). strict_prefix src p \<and> lookup t p = Some e \<and>
                  \<not> excluded rs (drop (length src) p) e) t)"

text \<open>The directory \<open>p\<close> of the receiver holds an entry that the rules exclude.\<close>

definition protected :: "rule list \<Rightarrow> path \<Rightarrow> fs \<Rightarrow> path \<Rightarrow> bool" where
  "protected rs dst t p =
     list_ex (\<lambda>(q, e). strict_prefix p q \<and> lookup t q = Some e \<and>
                excluded_below rs (length p - length dst) (drop (length dst) q) e) t"

definition stuck :: "bool \<Rightarrow> rule list \<Rightarrow> path \<Rightarrow> fs \<Rightarrow> path \<Rightarrow> bool" where
  "stuck delete rs dst t p =
     (lookup t p = Some Dir \<and> (if delete then protected rs dst t p else has_children t p))"

definition received :: "(path \<Rightarrow> path \<Rightarrow> bool) \<Rightarrow> path \<Rightarrow> path \<Rightarrow> fs \<Rightarrow> path \<Rightarrow> entry \<Rightarrow> entry" where
  "received same_mtime src dst t p e =
     (case (e, lookup t p) of
        (File c, Some (File old)) \<Rightarrow>
          if length old = length c \<and> same_mtime (src @ drop (length dst) p) p then File old else File c
      | _ \<Rightarrow> e)"

text \<open>
  The depth, below \<open>DST\<close>, of the directory above \<open>p\<close> that has to give way to a file of the
  sender (0 when there is none): rsync empties it without asking whether the directory
  itself is excluded.
\<close>

definition conflict_depth :: "fs \<Rightarrow> path \<Rightarrow> path \<Rightarrow> nat" where
  "conflict_depth sent dst p =
     (case filter (\<lambda>q. q \<noteq> p \<and> is_file sent q) (prefixes p) of
        [] \<Rightarrow> 0
      | q # qs \<Rightarrow> length q - length dst)"

definition extraneous :: "rule list \<Rightarrow> fs \<Rightarrow> path \<Rightarrow> fs \<Rightarrow> path \<Rightarrow> bool" where
  "extraneous rs sent dst t p =
     (case lookup t p of
        None \<Rightarrow> False
      | Some e \<Rightarrow>
          p \<notin> set (map fst sent) \<and>
          \<not> excluded_below rs (conflict_depth sent dst p) (drop (length dst) p) e \<and>
          \<not> (e = Dir \<and> protected rs dst t p))"

text \<open>What the receiver writes: the file list without the files whose place is taken.\<close>

definition written ::
    "(path \<Rightarrow> path \<Rightarrow> bool) \<Rightarrow> bool \<Rightarrow> rule list \<Rightarrow> path \<Rightarrow> path \<Rightarrow> fs \<Rightarrow> fs" where
  "written same_mtime delete rs src dst t =
     map (\<lambda>(p, e). (p, received same_mtime src dst t p e))
       (filter (\<lambda>(p, e). \<not> (e \<noteq> Dir \<and> stuck delete rs dst t p)) (transferred rs src dst t))"

definition rsync ::
    "(path \<Rightarrow> path \<Rightarrow> bool) \<Rightarrow> bool \<Rightarrow> rule list \<Rightarrow> path \<Rightarrow> path \<Rightarrow> fs \<Rightarrow> nat \<times> fs" where
  "rsync same_mtime delete rs src dst t =
     (if \<not> is_dir t src then (23, t)
      else if \<not> is_dir t (dirname dst) \<or> is_file t dst then (11, t)
      else let sent = transferred rs src dst t;
               new = written same_mtime delete rs src dst t;
               kept = filter (\<lambda>(p, e). \<not> (strict_prefix dst p \<and>
                        (p \<in> set (map fst new) \<or> (delete \<and> extraneous rs sent dst t p)))) t
           in (if list_ex (\<lambda>(p, e). e \<noteq> Dir \<and> stuck delete rs dst t p) sent then 23 else 0,
               mkdir_p dst kept @ new))"

text \<open>\<^verbatim>\<open>find DIR -type f | wc -l\<close>.\<close>

definition find_files :: "fs \<Rightarrow> path \<Rightarrow> path list" where
  "find_files t d = map fst (filter (\<lambda>(p, e). prefix d p \<and> e \<noteq> Dir) t)"

definition count_type_f :: "fs \<Rightarrow> path \<Rightarrow> nat" where
  "count_type_f t d = length (find_files t d)"

text \<open>A shell function's \<^verbatim>\<open>return n\<close> keeps the low eight bits of \<open>n\<close>.\<close>

definition return_status :: "nat \<Rightarrow> nat" where
  "return_status n = n mod 256"

definition file_content :: "fs \<Rightarrow> path \<Rightarrow> string" where
  "file_content t p = (case lookup t p of Some (File c) \<Rightarrow> c | _ \<Rightarrow> [])"

section \<open>rollback.sh\<close>

text \<open>
  The options are the script's global variables after argument parsing. What the script
  reads from outside the file system is gathered in a record: the clock, the verdict of
  \<^verbatim>\<open>python3 -m json.tool\<close> on a file's content, the number of days the embedded Python
  snippet prints for a metadata file (\<open>999\<close> when the timestamp is missing or does not
  parse), the permission tests, the operator's answer at the prompt, the outcome of the
  validation script that \<^verbatim>\<open>verify_rollback\<close> launches, and whether two files that rsync
  compares carry the same modification time.
\<close>

record rollback_opts =
  rb_BACKUP_DIR :: path
  rb_TARGET_DIR :: path
  rb_DRY_RUN :: bool
  rb_VERBOSE :: bool
  rb_FORCE :: bool
  rb_VERIFY_ONLY :: bool
  rb_CHECK_HEALTH :: bool
  rb_SKIP_CONFIRMATION :: bool

record rollback_env =
  rb_PROJECT_ROOT :: path
  rb_ROLLBACK_ID :: string
  rb_date :: string
  rb_json_valid :: "string \<Rightarrow> bool"
  rb_days_ago :: "string \<Rightarrow> int"
  rb_readable :: "path \<Rightarrow> bool"
  rb_writable :: "path \<Rightarrow> bool"
  rb_response :: string
  rb_validation_script :: bool
  rb_validate_deployment :: "fs \<Rightarrow> path \<Rightarrow> bool"
  rb_same_mtime :: "path \<Rightarrow> path \<Rightarrow> bool"

text \<open>
  \<^verbatim>\<open>setup_rollback_logging\<close> creates the log file of the run under the project root. The
  lines that \<^verbatim>\<open>log\<close> appends to it afterwards are not part of the model.
\<close>

definition setup_rollback_logging :: "rollback_opts \<Rightarrow> rollback_env \<Rightarrow> fs \<Rightarrow> fs" where
  "setup_rollback_logging opts env t =
     (if rb_DRY_RUN opts then t
      else let log_dir = rb_PROJECT_ROOT env @ [''logs'']
           in write_file (log_dir @ [''rollback-'' @ rb_ROLLBACK_ID env @ ''.log''])
                ''# Directus Rollback Log'' (mkdir_p log_dir t))"

text \<open>\<^verbatim>\<open>validate_parameters\<close>: \<open>Some 2\<close> is \<^verbatim>\<open>exit 2\<close>; \<open>None\<close> means the function returned.\<close>

definition validate_parameters :: "rollback_opts \<Rightarrow> rollback_env \<Rightarrow> fs \<Rightarrow> nat option" where
  "validate_parameters opts env t =
     (if rb_BACKUP_DIR opts = [] then Some 2
      else if rb_TARGET_DIR opts = [] \<and> \<not> rb_VERIFY_ONLY opts then Some 2
      else if \<not> is_dir t (rb_BACKUP_DIR opts) then Some 2
      else if \<not> rb_readable env (rb_BACKUP_DIR opts) then Some 2
      else if \<not> rb_VERIFY_ONLY opts \<and> \<not> is_dir t (rb_TARGET_DIR opts) then Some 2
      else if \<not> rb_VERIFY_ONLY opts \<and> \<not> rb_writable env (rb_TARGET_DIR opts) then Some 2
      else None)"

text \<open>
  \<^verbatim>\<open>verify_backup_integrity\<close> counts issues: the metadata sidecar is missing or is not
  JSON; \<^verbatim>\<open>database.sql\<close> is present and empty; the backup is more than 30 days old. It
  returns the count.
\<close>

definition metadata_issues :: "rollback_opts \<Rightarrow> rollback_env \<Rightarrow> fs \<Rightarrow> nat" where
  "metadata_issues opts env t =
     (let metadata_file = rb_BACKUP_DIR opts @ [''backup-metadata.json'']
      in if \<not> is_file t metadata_file then 1
         else if \<not> rb_json_valid env (file_content t metadata_file) then 1
         else 0)"

definition database_issues :: "rollback_opts \<Rightarrow> fs \<Rightarrow> nat" where
  "database_issues opts t =
     (let db = rb_BACKUP_DIR opts @ [''database.sql'']
      in if is_file t db \<and> length (file_content t db) = 0 then 1 else 0)"

definition age_issues :: "rollback_opts \<Rightarrow> rollback_env \<Rightarrow> fs \<Rightarrow> nat" where
  "age_issues opts env t =
     (let metadata_file = rb_BACKUP_DIR opts @ [''backup-metadata.json'']
      in if is_file t metadata_file \<and> rb_days_ago env (file_content t metadata_file) > 30 then 1 else 0)"

definition verify_backup_integrity :: "rollback_opts \<Rightarrow> rollback_env \<Rightarrow> fs \<Rightarrow> nat" where
  "verify_backup_integrity opts env t =
     (if rb_DRY_RUN opts then 0
      else return_status (metadata_issues opts env t + database_issues opts t + age_issues opts env t))"

definition get_user_confirmation :: "rollback_opts \<Rightarrow> rollback_env \<Rightarrow> nat" where
  "get_user_confirmation opts env =
     (if rb_FORCE opts \<or> rb_SKIP_CONFIRMATION opts then 0
      else if rb_DRY_RUN opts then 0
      else if rb_response env \<in> set [''yes'', ''YES'', ''y'', ''Y''] then 0
      else 1)"

text \<open>
  The functions below are called as \<^verbatim>\<open>if ! f; then ... exit\<close>, so bash ignores
  \<^verbatim>\<open>set -e\<close> inside them: a command that fails changes nothing and the function goes on.
\<close>

definition backup_current_state :: "rollback_opts \<Rightarrow> rollback_env \<Rightarrow> fs \<Rightarrow> nat \<times> fs" where
  "backup_current_state opts env t =
     (let current_backup_dir = rb_PROJECT_ROOT env @ [''backups'', ''pre-rollback-'' @ rb_date env]
      in if rb_DRY_RUN opts then (0, t)
         else case rsync (rb_same_mtime env) False [Exclude ''data/'', Exclude ''uploads/'', Exclude ''backups/''] (rb_TARGET_DIR opts)
                     current_backup_dir (mkdir_p current_backup_dir t) of
                (st, t') \<Rightarrow>
                  if st \<noteq> 0 then (1, t')
                  else (0, write_file (current_backup_dir @ [''backup-metadata.json''])
                             ''backup_type: pre-rollback'' t'))"

definition preserve_dir :: "path \<Rightarrow> path \<Rightarrow> string \<Rightarrow> fs \<Rightarrow> fs" where
  "preserve_dir target staging_dir dir t =
     (if is_dir t (target @ [dir]) then snd (cp_r (target @ [dir]) (staging_dir @ [dir]) t) else t)"

definition promote_rollback :: "path \<Rightarrow> path \<Rightarrow> fs \<Rightarrow> fs" where
  "promote_rollback target staging_dir t =
     (let temp_backup = with_suffix target ''.pre-rollback-temp''
      in snd (mv staging_dir target (snd (mv target temp_backup t))))"

definition perform_rollback :: "rollback_opts \<Rightarrow> rollback_env \<Rightarrow> fs \<Rightarrow> nat \<times> fs" where
  "perform_rollback opts env t =
     (if rb_DRY_RUN opts then (0, t)
      else let target = rb_TARGET_DIR opts;
               backup = rb_BACKUP_DIR opts;
               staging_dir = with_suffix target ''.rollback-staging'';
               t1 = mkdir_p staging_dir t
           in if is_file t1 (backup @ [''package.json''])
              then (0, promote_rollback target staging_dir
                         (preserve_dir target staging_dir ''uploads''
                           (preserve_dir target staging_dir ''data''
                             (snd (rsync (rb_same_mtime env) False [Exclude ''data/'', Exclude ''uploads/''] backup staging_dir t1)))))
              else if is_dir t1 (backup @ [''files''])
              then (0, promote_rollback target staging_dir
                         (preserve_dir target staging_dir ''uploads''
                           (preserve_dir target staging_dir ''data''
                             (snd (rsync (rb_same_mtime env) False [] (backup @ [''files'']) staging_dir t1)))))
              else (1, rm_rf staging_dir t1))"

definition verify_rollback :: "rollback_opts \<Rightarrow> rollback_env \<Rightarrow> fs \<Rightarrow> nat" where
  "verify_rollback opts env t =
     (if rb_DRY_RUN opts then 0
      else return_status
             ((if \<not> is_file t (rb_TARGET_DIR opts @ [''package.json'']) then 1 else 0) +
              (if rb_validation_script env \<and> \<not> rb_validate_deployment env t (rb_TARGET_DIR opts)
               then 1 else 0)))"

text \<open>
  \<^verbatim>\<open>main\<close>: the exit status of the script and the file system it leaves.
  \<^verbatim>\<open>check_target_health\<close> only reads and its status is only logged, so it has no part in
  either.
\<close>

definition rollback_main :: "rollback_opts \<Rightarrow> rollback_env \<Rightarrow> fs \<Rightarrow> nat \<times> fs" where
  "rollback_main opts env t =
     (let t0 = setup_rollback_logging opts env t
      in case validate_parameters opts env t0 of
           Some code \<Rightarrow> (code, t0)
         | None \<Rightarrow>
             if verify_backup_integrity opts env t0 \<noteq> 0 then (2, t0)
             else if rb_VERIFY_ONLY opts then (0, t0)
             else if get_user_confirmation opts env \<noteq> 0 then (3, t0)
             else case backup_current_state opts env t0 of
                    (s1, t1) \<Rightarrow>
                      if s1 \<noteq> 0 then (1, t1)
                      else case perform_rollback opts env t1 of
                             (s2, t2) \<Rightarrow>
                               if s2 \<noteq> 0 then (1, t2)
                               else if verify_rollback opts env t2 \<noteq> 0 then (1, t2)
                               else (0, t2))"

section \<open>Shell text\<close>

text \<open>
  What a shell function prints is a list of lines. \<^verbatim>\<open>x=$(f)\<close> stores all of them, joined
  by newlines, so a function that logs to standard output before it prints its result
  hands back the log together with the result. A string used as a path is cut at the
  slashes; a relative one starts at the working directory.
\<close>

definition newline :: char where
  "newline = CHR 0x0A"

definition capture :: "string list \<Rightarrow> string" where
  "capture ls = (case ls of [] \<Rightarrow> [] | l # r \<Rightarrow> foldl (\<lambda>acc x. acc @ [newline] @ x) l r)"

definition log_line :: "string \<Rightarrow> string \<Rightarrow> string" where
  "log_line clock msg = ''['' @ clock @ ''] '' @ msg"

definition verbose_line :: "bool \<Rightarrow> string \<Rightarrow> string \<Rightarrow> string list" where
  "verbose_line verbose clock msg = (if verbose then [log_line clock (''VERBOSE: '' @ msg)] else [])"

definition render :: "path \<Rightarrow> string" where
  "render p = concat (map (\<lambda>c. CHR ''/'' # c) p)"

fun split_on :: "char \<Rightarrow> string \<Rightarrow> string list" where
  "split_on d [] = [[]]"
| "split_on d (c # cs) =
     (if c = d then [] # split_on d cs
      else (case split_on d cs of [] \<Rightarrow> [[c]] | w # ws \<Rightarrow> (c # w) # ws))"

definition normalise :: "path \<Rightarrow> string list \<Rightarrow> path" where
  "normalise start cs =
     foldl (\<lambda>acc c. if c = [] \<or> c = ''.'' then acc else if c = ''..'' then butlast acc else acc @ [c])
       start cs"

definition parse_path :: "path \<Rightarrow> string \<Rightarrow> path" where
  "parse_path cwd s =
     (case s of [] \<Rightarrow> []
      | c # cs \<Rightarrow> normalise (if c = CHR ''/'' then [] else cwd) (split_on CHR ''/'' s))"

definition digit :: "nat \<Rightarrow> char" where
  "digit n = ''0123456789'' ! n"

function dec :: "nat \<Rightarrow> string" where
  "dec n = (if n < 10 then [digit n] else dec (n div 10) @ [digit (n mod 10)])"
  by pat_completeness auto
termination
  by (relation "measure id") auto

text \<open>\<^verbatim>\<open>grep -q PATTERN\<close> for a fixed pattern without newline.\<close>

definition contains :: "string \<Rightarrow> string \<Rightarrow> bool" where
  "contains pat s = list_ex (prefix pat) (suffixes s)"

section \<open>verify-backup.sh\<close>

record verify_opts =
  vb_VERBOSE :: bool
  vb_BACKUP_DIR :: path
  vb_CHECK_DATABASE :: bool
  vb_CHECK_FILES :: bool
  vb_QUICK_CHECK :: bool

text \<open>
  Outside the file system the script consults \<^verbatim>\<open>python3\<close> (the JSON validator and the
  one-line field readers, whose printed text is taken as given) and \<^verbatim>\<open>sort | tail -1\<close>
  (whose collation is the locale's).
\<close>

record verify_env =
  vb_BACKUP_BASE_DIR :: path
  vb_cwd :: path
  vb_clock :: string
  vb_has_python3 :: bool
  vb_json_valid :: "string \<Rightarrow> bool"
  vb_json_text :: "string \<Rightarrow> string \<Rightarrow> string"
  vb_json_number :: "string \<Rightarrow> string \<Rightarrow> nat"
  vb_sort_tail :: "string list \<Rightarrow> string"

text \<open>
  \<^verbatim>\<open>find_latest_backup\<close>: \<^verbatim>\<open>find BASE -maxdepth 1 -type d -name "*backup*"\<close> lists the base
  directory itself and its child directories whose name matches. \<open>None\<close> is
  \<^verbatim>\<open>return 1\<close>; otherwise the printed lines are given.
\<close>

definition find_latest_backup :: "verify_opts \<Rightarrow> verify_env \<Rightarrow> fs \<Rightarrow> string list option" where
  "find_latest_backup opts env t =
     (let base = vb_BACKUP_BASE_DIR env
      in if \<not> is_dir t base then None
         else let found = filter (\<lambda>(p, e). e = Dir \<and> (p = base \<or> (p \<noteq> [] \<and> dirname p = base)) \<and>
                                     glob ''*backup*'' (basename p)) t;
                  latest_backup = vb_sort_tail env (map (\<lambda>(p, e). render p) found)
              in if latest_backup = [] then None
                 else Some (verbose_line (vb_VERBOSE opts) (vb_clock env)
                              (''Looking for latest backup in: '' @ render base) @
                            verbose_line (vb_VERBOSE opts) (vb_clock env)
                              (''Latest backup found: '' @ latest_backup) @
                            [latest_backup]))"

definition verify_backup_structure :: "verify_env \<Rightarrow> fs \<Rightarrow> path \<Rightarrow> nat" where
  "verify_backup_structure env t backup_dir =
     (if \<not> is_dir t backup_dir then 1
      else return_status
        ((if \<not> is_file t (backup_dir @ [''backup-metadata.json'']) then 1
          else if \<not> vb_json_valid env (file_content t (backup_dir @ [''backup-metadata.json''])) then 1
          else 0) +
         (if \<not> is_file t (backup_dir @ [''README.md'']) then 1 else 0)))"

definition verify_database_backup :: "fs \<Rightarrow> path \<Rightarrow> nat" where
  "verify_database_backup t backup_dir =
     (let db_file = backup_dir @ [''database.sql''];
          sql = file_content t db_file;
          file_size = length sql
      in if \<not> is_file t db_file then 1
         else return_status
           ((if file_size = 0 then 1 else 0) +
            (if file_size > 0
             then (if contains ''PostgreSQL database dump'' sql then 0 else 1) +
                  length (filter (\<lambda>pattern. \<not> contains pattern sql) [''CREATE'', ''INSERT'', ''COPY''])
             else 0)))"

definition zero_byte_files :: "fs \<Rightarrow> path \<Rightarrow> nat" where
  "zero_byte_files t d = length (filter (\<lambda>(p, e). prefix d p \<and> e = File []) t)"

definition large_files :: "fs \<Rightarrow> path \<Rightarrow> nat" where
  "large_files t d =
     length (filter (\<lambda>(p, e). prefix d p \<and> (case e of File c \<Rightarrow> int (length c) > 100 * 1048576 | Dir \<Rightarrow> False)) t)"

definition verify_file_backup :: "verify_opts \<Rightarrow> fs \<Rightarrow> path \<Rightarrow> nat" where
  "verify_file_backup opts t backup_dir =
     (let files_dir = backup_dir @ [''files'']
      in if \<not> is_dir t files_dir then 1
         else return_status
           ((if count_type_f t files_dir = 0 then 1 else 0) +
            (if \<not> vb_QUICK_CHECK opts
             then (if zero_byte_files t files_dir > 0 then 1 else 0) +
                  (if large_files t files_dir > 10 then 1 else 0)
             else 0)))"

text \<open>The metadata timestamp must match \<^verbatim>\<open>^[0-9]{4}-[0-9]{2}-[0-9]{2}T[0-9]{2}-[0-9]{2}-[0-9]{2}$\<close>.\<close>

definition timestamp_format :: "string \<Rightarrow> bool" where
  "timestamp_format s =
     list_all2 (\<lambda>m c. if m = CHR ''d'' then c \<in> set ''0123456789'' else c = m) ''dddd-dd-ddTdd-dd-dd'' s"

definition verify_metadata_consistency :: "verify_env \<Rightarrow> fs \<Rightarrow> path \<Rightarrow> nat" where
  "verify_metadata_consistency env t backup_dir =
     (let metadata = file_content t (backup_dir @ [''backup-metadata.json''])
      in if \<not> is_file t (backup_dir @ [''backup-metadata.json'']) then 0
         else if \<not> vb_has_python3 env then 0
         else return_status
           ((if timestamp_format (vb_json_text env metadata ''timestamp'') then 0 else 1) +
            (if vb_json_text env metadata ''backup_type'' = ''files'' \<and> is_dir t (backup_dir @ [''files''])
             then (if vb_json_number env metadata ''file_count'' = count_type_f t (backup_dir @ [''files''])
                   then 0 else 1)
             else 0)))"

text \<open>\<^verbatim>\<open>main\<close> adds up what the four verifications return and exits 0 only for a total of 0.\<close>

definition total_issues :: "verify_opts \<Rightarrow> verify_env \<Rightarrow> fs \<Rightarrow> path \<Rightarrow> nat" where
  "total_issues opts env t backup_dir =
     verify_backup_structure env t backup_dir +
     (if vb_CHECK_DATABASE opts then verify_database_backup t backup_dir else 0) +
     (if vb_CHECK_FILES opts then verify_file_backup opts t backup_dir else 0) +
     verify_metadata_consistency env t backup_dir"

definition verify_main :: "verify_opts \<Rightarrow> verify_env \<Rightarrow> fs \<Rightarrow> nat" where
  "verify_main opts env t =
     (if vb_BACKUP_DIR opts = []
      then (case find_latest_backup opts env t of
              None \<Rightarrow> 2
            | Some ls \<Rightarrow> if total_issues opts env t (parse_path (vb_cwd env) (capture ls)) = 0 then 0 else 1)
      else if total_issues opts env t (vb_BACKUP_DIR opts) = 0 then 0 else 1)"

section \<open>pre-deployment-checks.sh\<close>

record precheck_opts =
  pc_SOURCE_DIR :: path
  pc_TARGET_DIR :: path
  pc_DRY_RUN :: bool
  pc_VERBOSE :: bool
  pc_CHECK_DATABASE :: bool
  pc_CHECK_DISK_SPACE :: bool
  pc_CHECK_PERMISSIONS :: bool
  pc_CHECK_SERVICES :: bool

text \<open>
  The environment of the checks: which commands \<^verbatim>\<open>command -v\<close> finds, the major version
  of Node.js, what \<^verbatim>\<open>df\<close> reports as available (in KiB), the permission tests, whether
  \<^verbatim>\<open>find ! -readable\<close> lists a file, the value a shell variable has once an environment
  file of the given content has been sourced, the verdict of \<^verbatim>\<open>pg_isready\<close>, and what
  \<^verbatim>\<open>python3\<close> says about the deployment configuration.
\<close>

record precheck_env =
  pc_PROJECT_ROOT :: path
  pc_SCRIPT_DIR :: path
  pc_has_command :: "string \<Rightarrow> bool"
  pc_node_major :: nat
  pc_df_available_kb :: "path \<Rightarrow> int"
  pc_readable :: "path \<Rightarrow> bool"
  pc_writable :: "path \<Rightarrow> bool"
  pc_executable :: "path \<Rightarrow> bool"
  pc_unreadable_files :: "path \<Rightarrow> bool"
  pc_variable_after_source :: "string \<Rightarrow> string \<Rightarrow> string"
  pc_pg_isready :: bool
  pc_json_valid :: "string \<Rightarrow> bool"
  pc_json_has_key :: "string \<Rightarrow> string \<Rightarrow> bool"

definition MIN_DISK_SPACE_MB :: int where
  "MIN_DISK_SPACE_MB = 1024"

definition MIN_NODE_VERSION :: nat where
  "MIN_NODE_VERSION = 18"

definition precheck_source :: "precheck_opts \<Rightarrow> precheck_env \<Rightarrow> path" where
  "precheck_source opts env = (if pc_SOURCE_DIR opts = [] then pc_PROJECT_ROOT env else pc_SOURCE_DIR opts)"

definition precheck_validate_directories :: "precheck_opts \<Rightarrow> precheck_env \<Rightarrow> fs \<Rightarrow> nat" where
  "precheck_validate_directories opts env t =
     (let source = precheck_source opts env; target = pc_TARGET_DIR opts
      in if \<not> is_dir t source then 1
         else if \<not> pc_readable env source then 1
         else if target = [] then 1
         else if pc_DRY_RUN opts then (if \<not> is_dir t (dirname target) then 1 else 0)
         else if is_dir t target then (if \<not> pc_writable env target then 1 else 0)
         else if \<not> is_dir t (dirname target) \<or> \<not> pc_writable env (dirname target) then 1
         else 0)"

definition check_system_requirements :: "precheck_opts \<Rightarrow> precheck_env \<Rightarrow> nat" where
  "check_system_requirements opts env =
     (if pc_DRY_RUN opts then 0
      else return_status
        ((if pc_has_command env ''node''
          then (if pc_node_major env \<ge> MIN_NODE_VERSION then 0 else 1)
          else 1) +
         (if pc_has_command env ''npm'' then 0 else 1) +
         (if pc_has_command env ''rsync'' then 0 else 1) +
         (if pc_has_command env ''python3'' then 0 else 1)))"

definition check_disk_space :: "precheck_opts \<Rightarrow> precheck_env \<Rightarrow> fs \<Rightarrow> nat" where
  "check_disk_space opts env t =
     (if \<not> pc_CHECK_DISK_SPACE opts then 0
      else if pc_DRY_RUN opts then 0
      else let target_parent = dirname (pc_TARGET_DIR opts);
               backup_parent = dirname (pc_PROJECT_ROOT env @ [''backups''])
           in return_status
                ((if is_dir t target_parent
                  then (if pc_df_available_kb env target_parent div 1024 \<ge> MIN_DISK_SPACE_MB then 0 else 1)
                  else 1) +
                 (if is_dir t backup_parent
                  then (if pc_df_available_kb env backup_parent div 1024 \<ge> MIN_DISK_SPACE_MB then 0 else 1)
                  else 0)))"

text \<open>The deployment scripts are the regular files \<^verbatim>\<open>"$SCRIPT_DIR"/*.sh\<close>.\<close>

definition script_files :: "precheck_env \<Rightarrow> fs \<Rightarrow> path list" where
  "script_files env t =
     map fst (filter (\<lambda>(p, e). e \<noteq> Dir \<and> p \<noteq> [] \<and> dirname p = pc_SCRIPT_DIR env \<and>
                              glob ''*.sh'' (basename p) \<and> take 1 (basename p) \<noteq> ''.'') t)"

definition check_permissions :: "precheck_opts \<Rightarrow> precheck_env \<Rightarrow> fs \<Rightarrow> nat" where
  "check_permissions opts env t =
     (if \<not> pc_CHECK_PERMISSIONS opts then 0
      else if pc_DRY_RUN opts then 0
      else let source = precheck_source opts env; target = pc_TARGET_DIR opts
           in return_status
                ((if \<not> pc_readable env source then 1 else 0) +
                 (if pc_unreadable_files env source then 1 else 0) +
                 (if is_dir t target
                  then (if \<not> pc_writable env target then 1 else 0)
                  else (if \<not> pc_writable env (dirname target) then 1 else 0)) +
                 length (filter (\<lambda>script. \<not> pc_executable env script) (script_files env t))))"

text \<open>
  \<^verbatim>\<open>check_database\<close> sources the first of \<^verbatim>\<open>.env.production\<close> and \<^verbatim>\<open>.env\<close> that exists
  under the project root. No environment file is one issue; an empty \<^verbatim>\<open>DB_HOST\<close> or
  \<^verbatim>\<open>DB_DATABASE\<close> afterwards is one issue; a failed \<^verbatim>\<open>pg_isready\<close> probe is one issue.
\<close>

definition loaded_env_file :: "precheck_env \<Rightarrow> fs \<Rightarrow> path option" where
  "loaded_env_file env t =
     (if is_file t (pc_PROJECT_ROOT env @ [''.env.production'']) then Some (pc_PROJECT_ROOT env @ [''.env.production''])
      else if is_file t (pc_PROJECT_ROOT env @ [''.env'']) then Some (pc_PROJECT_ROOT env @ [''.env''])
      else None)"

definition check_database :: "precheck_opts \<Rightarrow> precheck_env \<Rightarrow> fs \<Rightarrow> nat" where
  "check_database opts env t =
     (if \<not> pc_CHECK_DATABASE opts then 0
      else if pc_DRY_RUN opts then 0
      else return_status
        (case loaded_env_file env t of
           None \<Rightarrow> 1
         | Some full_path \<Rightarrow>
             if pc_variable_after_source env (file_content t full_path) ''DB_HOST'' \<noteq> [] \<and>
                pc_variable_after_source env (file_content t full_path) ''DB_DATABASE'' \<noteq> []
             then (if pc_has_command env ''pg_isready''
                   then (if pc_pg_isready env then 0 else 1)
                   else 0)
             else 1))"

definition check_services :: "precheck_opts \<Rightarrow> nat" where
  "check_services opts = 0"

definition check_deployment_config :: "precheck_opts \<Rightarrow> precheck_env \<Rightarrow> fs \<Rightarrow> nat" where
  "check_deployment_config opts env t =
     (let config_file = pc_SCRIPT_DIR env @ [''deploy-config.json''];
          config = file_content t config_file
      in if pc_DRY_RUN opts then 0
         else return_status
           (if \<not> is_file t config_file then 1
            else (if pc_json_valid env config then 0 else 1) +
                 length (filter (\<lambda>section. \<not> pc_json_has_key env config section)
                           [''exclude_patterns'', ''preserve_directories''])))"

text \<open>
  \<^verbatim>\<open>main\<close> runs every check, adds up the returned counts and exits 0 only for a total of
  0. The script writes nothing.
\<close>

definition precheck_total :: "precheck_opts \<Rightarrow> precheck_env \<Rightarrow> fs \<Rightarrow> nat" where
  "precheck_total opts env t =
     precheck_validate_directories opts env t +
     check_system_requirements opts env +
     check_disk_space opts env t +
     check_permissions opts env t +
     check_database opts env t +
     check_services opts +
     check_deployment_config opts env t"

definition precheck_main :: "precheck_opts \<Rightarrow> precheck_env \<Rightarrow> fs \<Rightarrow> nat \<times> fs" where
  "precheck_main opts env t = (if precheck_total opts env t = 0 then 0 else 1, t)"

section \<open>Files written through the shell\<close>

text \<open>
  A redirection or a tool writing a named file needs the parent directory. A here-document
  is its lines, each ended by a newline. JSON strings are written with their quotes.
\<close>

definition write_at :: "path \<Rightarrow> string \<Rightarrow> fs \<Rightarrow> nat \<times> fs" where
  "write_at p c t = (if p = [] \<or> \<not> is_dir t (dirname p) \<or> is_dir t p then (1, t) else (0, write_file p c t))"

definition heredoc :: "string list \<Rightarrow> string" where
  "heredoc ls = concat (map (\<lambda>l. l @ [newline]) ls)"

definition quoted :: "string \<Rightarrow> string" where
  "quoted s = [CHR 0x22] @ s @ [CHR 0x22]"

definition json_line :: "string \<Rightarrow> string \<Rightarrow> string" where
  "json_line k v = ''    '' @ quoted k @ '': '' @ v @ '',''"

definition json_last :: "string \<Rightarrow> string \<Rightarrow> string" where
  "json_last k v = ''    '' @ quoted k @ '': '' @ v"

text \<open>The value text that a here-document written with the line formats above holds for a key.\<close>

definition heredoc_value :: "string \<Rightarrow> string \<Rightarrow> string" where
  "heredoc_value k content =
     (let start = ''    '' @ quoted k @ '': ''
      in case filter (prefix start) (split_on newline content) of
           [] \<Rightarrow> []
         | l # ls \<Rightarrow> (let v = drop (length start) l
                     in if v \<noteq> [] \<and> last v = CHR '','' then butlast v else v))"

section \<open>backup-database.sh\<close>

record dbbackup_opts =
  bd_DRY_RUN :: bool
  bd_VERBOSE :: bool

text \<open>
  The database settings are the variables after \<^verbatim>\<open>.env.production\<close> has been sourced and
  the defaults applied. \<^verbatim>\<open>pg_dump\<close> is given by its exit status and the bytes it writes to
  the dump file, \<^verbatim>\<open>du -h FILE | cut -f1\<close> by what it prints for a file of the given bytes.
\<close>

record dbbackup_env =
  bd_PROJECT_ROOT :: path
  bd_cwd :: path
  bd_TIMESTAMP :: string
  bd_clock :: string
  bd_has_pg_dump :: bool
  bd_DB_HOST :: string
  bd_DB_PORT :: string
  bd_DB_DATABASE :: string
  bd_DB_USER :: string
  bd_pg_isready :: bool
  bd_pg_dump :: "nat \<times> string"
  bd_du :: "string \<Rightarrow> string"
  bd_git_commit :: string

definition BACKUP_NAME :: "dbbackup_env \<Rightarrow> string" where
  "BACKUP_NAME env = ''directus-db-backup-'' @ bd_TIMESTAMP env"

text \<open>\<^verbatim>\<open>check_prerequisites\<close> and \<^verbatim>\<open>test_connection\<close>: \<open>Some 1\<close> is \<^verbatim>\<open>exit 1\<close>.\<close>

definition bd_check_prerequisites :: "dbbackup_env \<Rightarrow> nat option" where
  "bd_check_prerequisites env =
     (if \<not> bd_has_pg_dump env then Some 1
      else if bd_DB_DATABASE env = [] then Some 1
      else if bd_DB_USER env = [] then Some 1
      else None)"

definition test_connection :: "dbbackup_opts \<Rightarrow> dbbackup_env \<Rightarrow> nat option" where
  "test_connection opts env =
     (if bd_DRY_RUN opts then None
      else if \<not> bd_pg_isready env then Some 1
      else None)"

text \<open>
  \<^verbatim>\<open>create_backup_directory\<close> runs inside \<^verbatim>\<open>$(...)\<close>: its printed lines become the
  caller's \<^verbatim>\<open>backup_dir\<close>.
\<close>

definition bd_create_backup_directory :: "dbbackup_opts \<Rightarrow> dbbackup_env \<Rightarrow> fs \<Rightarrow> string list \<times> fs" where
  "bd_create_backup_directory opts env t =
     (let backup_dir = bd_PROJECT_ROOT env @ [''backups'', BACKUP_NAME env];
          said = verbose_line (bd_VERBOSE opts) (bd_clock env) (''Creating backup directory: '' @ render backup_dir)
      in if bd_DRY_RUN opts then (said @ [''DRY RUN: Would create directory: '' @ render backup_dir], t)
         else (said @ [render backup_dir], mkdir_p backup_dir t))"

definition database_metadata :: "dbbackup_env \<Rightarrow> string \<Rightarrow> string" where
  "database_metadata env dump =
     heredoc
       [''{'',
        json_line ''backup_type'' (quoted ''database''),
        json_line ''timestamp'' (quoted (bd_TIMESTAMP env)),
        json_line ''database_host'' (quoted (bd_DB_HOST env)),
        json_line ''database_port'' (quoted (bd_DB_PORT env)),
        json_line ''database_name'' (quoted (bd_DB_DATABASE env)),
        json_line ''database_user'' (quoted (bd_DB_USER env)),
        json_line ''dump_file'' (quoted ''database.sql''),
        json_line ''backup_size_bytes'' (dec (length dump)),
        json_line ''created_by'' (quoted ''backup-database.sh''),
        json_last ''git_commit'' (quoted (bd_git_commit env)),
        ''}'']"

text \<open>
  \<^verbatim>\<open>create_database_dump\<close> in a live run: \<^verbatim>\<open>pg_dump\<close>, then the metadata sidecar, then two
  log lines, the second with the size that \<^verbatim>\<open>du\<close> reports for the dump file. Under \<^verbatim>\<open>set -e\<close>
  a failing command ends the script with its status (the \<open>Inl\<close> results). No branch
  depends on the size of the dump.
\<close>

definition create_database_dump ::
    "dbbackup_env \<Rightarrow> string \<Rightarrow> fs \<Rightarrow> (nat \<times> fs) + (string list \<times> fs)" where
  "create_database_dump env backup_dir t =
     (let dump_file = parse_path (bd_cwd env) (backup_dir @ ''/database.sql'');
          metadata_file = parse_path (bd_cwd env) (backup_dir @ ''/backup-metadata.json'')
      in if fst (bd_pg_dump env) \<noteq> 0 then Inl (fst (bd_pg_dump env), t)
         else case write_at dump_file (snd (bd_pg_dump env)) t of
                (s1, t1) \<Rightarrow>
                  if s1 \<noteq> 0 then Inl (s1, t1)
                  else case write_at metadata_file (database_metadata env (snd (bd_pg_dump env))) t1 of
                         (s2, t2) \<Rightarrow>
                           if s2 \<noteq> 0 then Inl (s2, t2)
                           else Inr ([log_line (bd_clock env) (''Database backup completed: '' @ backup_dir @ ''/database.sql''),
                                      log_line (bd_clock env) (''Backup size: '' @ bd_du env (file_content t2 dump_file))],
                                     t2))"

text \<open>\<^verbatim>\<open>create_backup_summary\<close> writes \<^verbatim>\<open>README.md\<close>; only its heading is kept here.\<close>

definition bd_create_backup_summary :: "dbbackup_env \<Rightarrow> string \<Rightarrow> fs \<Rightarrow> nat \<times> fs" where
  "bd_create_backup_summary env backup_dir t =
     write_at (parse_path (bd_cwd env) (backup_dir @ ''/README.md''))
       (heredoc [''# Database Backup: '' @ BACKUP_NAME env]) t"

text \<open>
  The script: exit status, file system and the lines printed through \<^verbatim>\<open>log\<close>. Before
  \<^verbatim>\<open>main\<close> it insists on \<^verbatim>\<open>.env.production\<close>.
\<close>

definition dbbackup_main :: "dbbackup_opts \<Rightarrow> dbbackup_env \<Rightarrow> fs \<Rightarrow> nat \<times> fs \<times> string list" where
  "dbbackup_main opts env t =
     (if \<not> is_file t (bd_PROJECT_ROOT env @ [''.env.production''])
      then (1, t, [])
      else let out0 = [log_line (bd_clock env) (''Starting database backup: '' @ BACKUP_NAME env)]
           in case bd_check_prerequisites env of
                Some code \<Rightarrow> (code, t, out0)
              | None \<Rightarrow>
                 (case test_connection opts env of
                    Some code \<Rightarrow> (code, t, out0)
                  | None \<Rightarrow>
                     (case bd_create_backup_directory opts env t of
                        (ls, t1) \<Rightarrow>
                          if bd_DRY_RUN opts
                          then (0, t1, out0 @ [log_line (bd_clock env) ''DRY RUN completed - no actual backup created''])
                          else case create_database_dump env (capture ls) t1 of
                                 Inl (code, t2) \<Rightarrow> (code, t2, out0)
                               | Inr (out1, t2) \<Rightarrow>
                                   (case bd_create_backup_summary env (capture ls) t2 of
                                      (s3, t3) \<Rightarrow>
                                        if s3 \<noteq> 0 then (s3, t3, out0 @ out1)
                                        else (0, t3, out0 @ out1 @
                                                [log_line (bd_clock env) ''Database backup completed successfully!'',
                                                 log_line (bd_clock env) (''Backup location: '' @ capture ls)])))))"

section \<open>backup-files.sh\<close>

record filebackup_opts =
  bf_SOURCE_DIR :: path
  bf_TARGET_DIR :: path
  bf_DRY_RUN :: bool
  bf_VERBOSE :: bool
  bf_EXCLUDE_CACHE :: bool

text \<open>
  The environment: the clock, which tools are installed, what \<^verbatim>\<open>du\<close> prints for a
  directory, the commit that \<^verbatim>\<open>git\<close> reports, and whether two files that rsync compares
  carry the same modification time.
\<close>

record filebackup_env =
  bf_PROJECT_ROOT :: path
  bf_cwd :: path
  bf_TIMESTAMP :: string
  bf_clock :: string
  bf_has_rsync :: bool
  bf_same_mtime :: "path \<Rightarrow> path \<Rightarrow> bool"
  bf_has_du :: bool
  bf_readable :: "path \<Rightarrow> bool"
  bf_du :: "path \<Rightarrow> string"
  bf_git_commit :: string

definition bf_source :: "filebackup_opts \<Rightarrow> filebackup_env \<Rightarrow> path" where
  "bf_source opts env = (if bf_SOURCE_DIR opts = [] then bf_PROJECT_ROOT env @ [''uploads''] else bf_SOURCE_DIR opts)"

text \<open>\<^verbatim>\<open>validate_source\<close>: \<open>Some 1\<close> is \<^verbatim>\<open>exit 1\<close>.\<close>

definition validate_source :: "filebackup_opts \<Rightarrow> filebackup_env \<Rightarrow> fs \<Rightarrow> nat option" where
  "validate_source opts env t =
     (if \<not> is_dir t (bf_source opts env) then Some 1
      else if \<not> bf_readable env (bf_source opts env) then Some 1
      else None)"

text \<open>
  \<^verbatim>\<open>calculate_source_size\<close> and \<^verbatim>\<open>count_files\<close> are called as \<^verbatim>\<open>$(...)\<close>; these are the
  lines they print. \<^verbatim>\<open>count_files\<close> counts the regular files of the source directory.
\<close>

definition calculate_source_size :: "filebackup_opts \<Rightarrow> filebackup_env \<Rightarrow> string list" where
  "calculate_source_size opts env =
     verbose_line (bf_VERBOSE opts) (bf_clock env) ''Calculating source directory size...'' @
     (if bf_has_du env
      then verbose_line (bf_VERBOSE opts) (bf_clock env)
             (''Source directory size: '' @ bf_du env (bf_source opts env)) @
           [bf_du env (bf_source opts env)]
      else [''unknown''])"

definition count_files :: "filebackup_opts \<Rightarrow> filebackup_env \<Rightarrow> fs \<Rightarrow> string list" where
  "count_files opts env t =
     (let count = dec (count_type_f t (bf_source opts env))
      in verbose_line (bf_VERBOSE opts) (bf_clock env) ''Counting files in source directory...'' @
         verbose_line (bf_VERBOSE opts) (bf_clock env) (''File count: '' @ count @ '' files'') @
         [count])"

definition bf_create_backup_directory :: "filebackup_opts \<Rightarrow> filebackup_env \<Rightarrow> fs \<Rightarrow> string list \<times> fs" where
  "bf_create_backup_directory opts env t =
     (let target = (if bf_TARGET_DIR opts = []
                    then bf_PROJECT_ROOT env @ [''backups'', ''directus-files-backup-'' @ bf_TIMESTAMP env]
                    else bf_TARGET_DIR opts);
          said = verbose_line (bf_VERBOSE opts) (bf_clock env) (''Creating backup directory: '' @ render target)
      in if bf_DRY_RUN opts then (said @ [''DRY RUN: Would create directory: '' @ render target], t)
         else (said @ [render target], mkdir_p target t))"

definition build_exclude_patterns :: "filebackup_opts \<Rightarrow> rule list" where
  "build_exclude_patterns opts =
     (if bf_EXCLUDE_CACHE opts
      then [Exclude ''.cache/'', Exclude ''cache/'', Exclude ''*.cache'',
            Exclude ''thumbs/'', Exclude ''thumbnails/'',
            Exclude ''.tmp/'', Exclude ''tmp/'', Exclude ''*.tmp'']
      else []) @
     [Exclude ''.DS_Store'', Exclude ''Thumbs.db'', Exclude ''.git/'', Exclude ''.svn/'']"

definition backup_files_rsync :: "filebackup_opts \<Rightarrow> filebackup_env \<Rightarrow> string \<Rightarrow> fs \<Rightarrow> nat \<times> fs" where
  "backup_files_rsync opts env target_dir t =
     (let files_target = parse_path (bf_cwd env) (target_dir @ ''/files'')
      in rsync (bf_same_mtime env) False (build_exclude_patterns opts) (bf_source opts env) files_target (mkdir_p files_target t))"

text \<open>
  The fallback without rsync: \<^verbatim>\<open>cp -r "$SOURCE_DIR/"* "$files_target/"\<close> copies the children
  whose name does not start with a dot; afterwards \<^verbatim>\<open>find\<close> removes the cache and
  thumbnail directories, the \<^verbatim>\<open>*.cache\<close> files and the system files. Failures are
  swallowed by \<^verbatim>\<open>|| true\<close>.
\<close>

definition visible_child :: "path \<Rightarrow> path \<Rightarrow> bool" where
  "visible_child src p = (strict_prefix src p \<and> take 1 (p ! length src) \<noteq> ''.'')"

fun junk :: "string list \<Rightarrow> string list \<Rightarrow> path \<Rightarrow> entry \<Rightarrow> bool" where
  "junk ds gs [] e = False"
| "junk ds gs [c] e = (if e = Dir then c \<in> set ds else list_ex (\<lambda>g. glob g c) gs)"
| "junk ds gs (c # r) e = (c \<in> set ds \<or> junk ds gs r e)"

definition backup_files_cp :: "filebackup_opts \<Rightarrow> filebackup_env \<Rightarrow> string \<Rightarrow> fs \<Rightarrow> nat \<times> fs" where
  "backup_files_cp opts env target_dir t =
     (let files_target = parse_path (bf_cwd env) (target_dir @ ''/files'');
          source = bf_source opts env;
          t1 = mkdir_p files_target t;
          t2 = overwrite t1 (map (\<lambda>(p, e). (files_target @ drop (length source) p, e))
                               (filter (\<lambda>(p, e). visible_child source p) t1));
          ds = (if bf_EXCLUDE_CACHE opts then [''.cache'', ''cache'', ''thumbs'', ''thumbnails''] else []);
          gs = (if bf_EXCLUDE_CACHE opts then [''*.cache''] else []) @ [''.DS_Store'', ''Thumbs.db'']
      in (0, filter (\<lambda>(p, e). \<not> (strict_prefix files_target p \<and> junk ds gs (drop (length files_target) p) e)) t2))"

text \<open>
  \<^verbatim>\<open>create_backup_metadata\<close> writes the sidecar. Its \<^verbatim>\<open>file_count\<close> is whatever
  \<^verbatim>\<open>count_files\<close> printed, and \<^verbatim>\<open>count_files\<close> scans the source directory, not the
  \<^verbatim>\<open>files/\<close> payload.
\<close>

definition files_metadata :: "filebackup_opts \<Rightarrow> filebackup_env \<Rightarrow> fs \<Rightarrow> string \<Rightarrow> string" where
  "files_metadata opts env t target_dir =
     heredoc
       [''{'',
        json_line ''backup_type'' (quoted ''files''),
        json_line ''timestamp'' (quoted (bf_TIMESTAMP env)),
        json_line ''source_directory'' (quoted (render (bf_source opts env))),
        json_line ''backup_directory'' (quoted target_dir),
        json_line ''source_size'' (quoted (capture (calculate_source_size opts env))),
        json_line ''file_count'' (capture (count_files opts env t)),
        json_line ''exclude_cache'' (if bf_EXCLUDE_CACHE opts then ''true'' else ''false''),
        json_line ''backup_method'' (quoted (if bf_has_rsync env then ''rsync'' else ''cp'')),
        json_line ''created_by'' (quoted ''backup-files.sh''),
        json_last ''git_commit'' (quoted (bf_git_commit env)),
        ''}'']"

definition create_backup_metadata :: "filebackup_opts \<Rightarrow> filebackup_env \<Rightarrow> string \<Rightarrow> fs \<Rightarrow> nat \<times> fs" where
  "create_backup_metadata opts env target_dir t =
     write_at (parse_path (bf_cwd env) (target_dir @ ''/backup-metadata.json''))
       (files_metadata opts env t target_dir) t"

text \<open>\<^verbatim>\<open>create_backup_summary\<close> writes \<^verbatim>\<open>README.md\<close>; only its heading is kept here.\<close>

definition bf_create_backup_summary :: "filebackup_env \<Rightarrow> string \<Rightarrow> fs \<Rightarrow> nat \<times> fs" where
  "bf_create_backup_summary env target_dir t =
     write_at (parse_path (bf_cwd env) (target_dir @ ''/README.md''))
       (heredoc [''# File Backup: directus-files-backup-'' @ bf_TIMESTAMP env]) t"

text \<open>
  \<^verbatim>\<open>main\<close>, with \<^verbatim>\<open>set -e\<close> in force: the first failing command ends the script with its
  status.
\<close>

definition filebackup_main :: "filebackup_opts \<Rightarrow> filebackup_env \<Rightarrow> fs \<Rightarrow> nat \<times> fs" where
  "filebackup_main opts env t =
     (case validate_source opts env t of
        Some code \<Rightarrow> (code, t)
      | None \<Rightarrow>
         (case bf_create_backup_directory opts env t of
            (ls, t1) \<Rightarrow>
              if bf_DRY_RUN opts then (0, t1)
              else case (if bf_has_rsync env then backup_files_rsync opts env (capture ls) t1
                         else backup_files_cp opts env (capture ls) t1) of
                     (s2, t2) \<Rightarrow>
                       if s2 \<noteq> 0 then (s2, t2)
                       else case create_backup_metadata opts env (capture ls) t2 of
                              (s3, t3) \<Rightarrow>
                                if s3 \<noteq> 0 then (s3, t3)
                                else case bf_create_backup_summary env (capture ls) t3 of
                                       (s4, t4) \<Rightarrow> if s4 \<noteq> 0 then (s4, t4) else (0, t4)))"

section \<open>sync-code.sh\<close>

record sync_opts =
  sc_SOURCE_DIR :: path
  sc_TARGET_DIR :: path
  sc_DRY_RUN :: bool
  sc_VERBOSE :: bool
  sc_FORCE :: bool
  sc_USE_STAGING :: bool

text \<open>
  The configuration file \<^verbatim>\<open>deploy-config.json\<close> is read through \<^verbatim>\<open>python3\<close>: for the
  content of the file, the environment gives the patterns and options that the embedded
  snippets print (nothing when a snippet fails) and the staging directory. It also tells
  whether two files that rsync compares carry the same modification time.
\<close>

record sync_env =
  sc_PROJECT_ROOT :: path
  sc_SCRIPT_DIR :: path
  sc_cwd :: path
  sc_clock :: string
  sc_epoch :: string
  sc_same_mtime :: "path \<Rightarrow> path \<Rightarrow> bool"
  sc_DIRECTUS_PROD_PATH :: path
  sc_DEPLOY_DRY_RUN :: bool
  sc_has_command :: "string \<Rightarrow> bool"
  sc_readable :: "path \<Rightarrow> bool"
  sc_writable :: "path \<Rightarrow> bool"
  sc_json_valid :: "string \<Rightarrow> bool"
  sc_exclude_patterns :: "string \<Rightarrow> string list"
  sc_include_patterns :: "string \<Rightarrow> string list"
  sc_rsync_options :: "string \<Rightarrow> string list"
  sc_staging_directory :: "string \<Rightarrow> string"
  sc_uncommitted_changes :: bool

definition sc_CONFIG_FILE :: "sync_env \<Rightarrow> path" where
  "sc_CONFIG_FILE env = sc_SCRIPT_DIR env @ [''deploy-config.json'']"

definition sc_config :: "sync_env \<Rightarrow> fs \<Rightarrow> string" where
  "sc_config env t = file_content t (sc_CONFIG_FILE env)"

definition sc_dry_run :: "sync_opts \<Rightarrow> sync_env \<Rightarrow> bool" where
  "sc_dry_run opts env = (sc_DRY_RUN opts \<or> sc_DEPLOY_DRY_RUN env)"

definition sc_source :: "sync_opts \<Rightarrow> sync_env \<Rightarrow> path" where
  "sc_source opts env = (if sc_SOURCE_DIR opts = [] then sc_PROJECT_ROOT env else sc_SOURCE_DIR opts)"

definition sc_target :: "sync_opts \<Rightarrow> sync_env \<Rightarrow> path" where
  "sc_target opts env = (if sc_TARGET_DIR opts = [] then sc_DIRECTUS_PROD_PATH env else sc_TARGET_DIR opts)"

text \<open>The functions that end the script with \<^verbatim>\<open>exit 1\<close> return \<open>Some 1\<close>.\<close>

definition sc_load_config :: "sync_env \<Rightarrow> fs \<Rightarrow> nat option" where
  "sc_load_config env t =
     (if \<not> is_file t (sc_CONFIG_FILE env) then Some 1
      else if \<not> sc_json_valid env (sc_config env t) then Some 1
      else None)"

definition sc_check_prerequisites :: "sync_env \<Rightarrow> nat option" where
  "sc_check_prerequisites env =
     (if \<not> sc_has_command env ''rsync'' then Some 1
      else if \<not> sc_has_command env ''python3'' then Some 1
      else None)"

definition sc_validate_directories :: "sync_opts \<Rightarrow> sync_env \<Rightarrow> fs \<Rightarrow> nat option \<times> fs" where
  "sc_validate_directories opts env t =
     (let source = sc_source opts env; target = sc_target opts env
      in if \<not> is_dir t source then (Some 1, t)
         else if \<not> sc_readable env source then (Some 1, t)
         else if target = [] then (Some 1, t)
         else if sc_dry_run opts env
         then (if \<not> is_dir t (dirname target) then (Some 1, t) else (None, t))
         else let t' = (if \<not> is_dir t target then mkdir_p target t else t)
              in if \<not> sc_writable env target then (Some 1, t') else (None, t'))"

definition validate_source_changes :: "sync_opts \<Rightarrow> sync_env \<Rightarrow> fs \<Rightarrow> nat option" where
  "validate_source_changes opts env t =
     (if is_dir t (sc_source opts env @ [''.git'']) \<and> \<not> sc_FORCE opts \<and> sc_uncommitted_changes env
      then Some 1 else None)"

text \<open>
  \<^verbatim>\<open>create_staging_directory\<close> is called as \<^verbatim>\<open>sync_target=$(create_staging_directory)\<close>.
  In staging mode it reports through \<^verbatim>\<open>log\<close>, which writes to standard output, before it
  prints the directory, so the caller receives both lines.
\<close>

definition staging_dir_text :: "sync_env \<Rightarrow> fs \<Rightarrow> string" where
  "staging_dir_text env t =
     (let staging_dir = sc_staging_directory env (sc_config env t)
      in if take 1 staging_dir \<noteq> ''/'' then render (sc_PROJECT_ROOT env) @ ''/'' @ staging_dir
         else staging_dir)"

definition create_staging_directory :: "sync_opts \<Rightarrow> sync_env \<Rightarrow> fs \<Rightarrow> string list \<times> fs" where
  "create_staging_directory opts env t =
     (if \<not> sc_USE_STAGING opts then ([render (sc_target opts env)], t)
      else let staging_dir = staging_dir_text env t;
               dir = parse_path (sc_cwd env) staging_dir;
               said = verbose_line (sc_VERBOSE opts) (sc_clock env) (''Using staging directory: '' @ staging_dir)
           in if sc_dry_run opts env
              then (said @ [''DRY RUN: Would create staging directory: '' @ staging_dir, staging_dir], t)
              else ((said @
                     (if is_dir t dir then [log_line (sc_clock env) ''Cleaning existing staging directory''] else []) @
                     [log_line (sc_clock env) (''Created staging directory: '' @ staging_dir), staging_dir]),
                    mkdir_p dir (if is_dir t dir then rm_rf dir t else t)))"

text \<open>The three option builders of \<^verbatim>\<open>perform_sync\<close>, again as printed lines.\<close>

definition fallback_exclude_line :: string where
  "fallback_exclude_line =
     ''--exclude=data/ --exclude=uploads/ --exclude=backups/ --exclude=.env* --exclude=*.log --exclude=node_modules/''"

definition fallback_exclude_patterns :: "string list" where
  "fallback_exclude_patterns = [''data/'', ''uploads/'', ''backups/'', ''.env*'', ''*.log'', ''node_modules/'']"

definition sc_build_exclude_patterns :: "sync_opts \<Rightarrow> sync_env \<Rightarrow> fs \<Rightarrow> string list" where
  "sc_build_exclude_patterns opts env t =
     (let printed = map (\<lambda>pattern. ''--exclude='' @ pattern) (sc_exclude_patterns env (sc_config env t))
      in verbose_line (sc_VERBOSE opts) (sc_clock env) ''Building exclude patterns from configuration...'' @
         (if capture printed \<noteq> []
          then verbose_line (sc_VERBOSE opts) (sc_clock env) ''Added exclude patterns from configuration'' @ printed
          else verbose_line (sc_VERBOSE opts) (sc_clock env) ''Using fallback exclude patterns'' @
               [fallback_exclude_line]))"

definition build_include_patterns :: "sync_opts \<Rightarrow> sync_env \<Rightarrow> fs \<Rightarrow> string list" where
  "build_include_patterns opts env t =
     verbose_line (sc_VERBOSE opts) (sc_clock env) ''Building include patterns from configuration...'' @
     map (\<lambda>pattern. ''--include='' @ pattern) (sc_include_patterns env (sc_config env t))"

definition words_line :: "string list \<Rightarrow> string" where
  "words_line ws = (case ws of [] \<Rightarrow> [] | w # r \<Rightarrow> foldl (\<lambda>acc x. acc @ '' '' @ x) w r)"

definition get_rsync_options :: "sync_opts \<Rightarrow> sync_env \<Rightarrow> fs \<Rightarrow> string list" where
  "get_rsync_options opts env t =
     (let rsync_opts = words_line (sc_rsync_options env (sc_config env t))
      in verbose_line (sc_VERBOSE opts) (sc_clock env) ''Getting rsync options from configuration...'' @
         verbose_line (sc_VERBOSE opts) (sc_clock env) (''Rsync options: '' @ rsync_opts) @
         [rsync_opts])"

text \<open>
  \<^verbatim>\<open>perform_sync\<close> glues the captured texts into one string and hands it to \<^verbatim>\<open>eval\<close>. A
  newline in the option texts ends the command there: then the first command is an
  rsync without the source and target operands, or in verbose mode one whose operands
  are the words of a log line; rsync refuses both with status 1 and \<^verbatim>\<open>set -e\<close> ends the
  script. Of the configured options only \<^verbatim>\<open>--delete\<close> is interpreted, and every pattern
  is taken to be one shell word.
\<close>

definition sync_rules :: "sync_env \<Rightarrow> fs \<Rightarrow> rule list" where
  "sync_rules env t =
     (let incl = sc_include_patterns env (sc_config env t);
          excl = sc_exclude_patterns env (sc_config env t)
      in (if incl = [] then [] else map Include incl @ [Exclude ''*'']) @
         map Exclude (if excl = [] then fallback_exclude_patterns else excl))"

definition one_command :: "sync_opts \<Rightarrow> sync_env \<Rightarrow> fs \<Rightarrow> bool" where
  "one_command opts env t =
     (newline \<notin> set (capture (sc_build_exclude_patterns opts env t)) \<and>
      newline \<notin> set (capture (build_include_patterns opts env t)) \<and>
      newline \<notin> set (capture (get_rsync_options opts env t)))"

definition perform_sync :: "sync_opts \<Rightarrow> sync_env \<Rightarrow> string \<Rightarrow> fs \<Rightarrow> nat \<times> fs" where
  "perform_sync opts env sync_target t =
     (if sc_dry_run opts env then (0, t)
      else if \<not> one_command opts env t then (1, t)
      else rsync (sc_same_mtime env) (''--delete'' \<in> set (sc_rsync_options env (sc_config env t))) (sync_rules env t)
             (sc_source opts env) (parse_path (sc_cwd env) sync_target) t)"

text \<open>
  \<^verbatim>\<open>promote_staging\<close> copies the staging tree to \<^verbatim>\<open>TARGET.new\<close>, moves the live target
  aside to \<^verbatim>\<open>TARGET.backup-EPOCH\<close>, moves \<^verbatim>\<open>TARGET.new\<close> into place and removes the
  staging directory. Nothing is carried over from the old target.
\<close>

definition promote_staging :: "sync_opts \<Rightarrow> sync_env \<Rightarrow> string \<Rightarrow> fs \<Rightarrow> nat \<times> fs" where
  "promote_staging opts env staging_dir t =
     (let target = sc_target opts env;
          staging = parse_path (sc_cwd env) staging_dir;
          backup_dir = with_suffix target (''.backup-'' @ sc_epoch env);
          new = with_suffix target ''.new''
      in if \<not> sc_USE_STAGING opts then (0, t)
         else if staging_dir = render target then (0, t)
         else if sc_dry_run opts env then (0, t)
         else case cp_r staging new t of
                (s1, t1) \<Rightarrow>
                  if s1 \<noteq> 0 then (s1, t1)
                  else case (if is_dir t1 target then mv target backup_dir t1 else (0, t1)) of
                         (s2, t2) \<Rightarrow>
                           if s2 \<noteq> 0 then (s2, t2)
                           else case mv new target t2 of
                                  (s3, t3) \<Rightarrow> if s3 \<noteq> 0 then (s3, t3) else (0, rm_rf staging t3))"

text \<open>
  \<^verbatim>\<open>main\<close>. \<^verbatim>\<open>set_permissions\<close> only changes modes, which the file system here does not
  record.
\<close>

definition sync_main :: "sync_opts \<Rightarrow> sync_env \<Rightarrow> fs \<Rightarrow> nat \<times> fs" where
  "sync_main opts env t =
     (case sc_load_config env t of
        Some code \<Rightarrow> (code, t)
      | None \<Rightarrow>
         (case sc_check_prerequisites env of
            Some code \<Rightarrow> (code, t)
          | None \<Rightarrow>
             (case sc_validate_directories opts env t of
                (Some code, t1) \<Rightarrow> (code, t1)
              | (None, t1) \<Rightarrow>
                 (case validate_source_changes opts env t1 of
                    Some code \<Rightarrow> (code, t1)
                  | None \<Rightarrow>
                     (case create_staging_directory opts env t1 of
                        (ls, t2) \<Rightarrow>
                          (case perform_sync opts env (capture ls) t2 of
                             (s3, t3) \<Rightarrow>
                               if s3 \<noteq> 0 then (s3, t3)
                               else promote_staging opts env (capture ls) t3))))))"

section \<open>deploy.sh\<close>

record deploy_opts =
  dp_SOURCE_DIR :: path
  dp_TARGET_DIR :: path
  dp_CONFIG_FILE :: path
  dp_DRY_RUN :: bool
  dp_VERBOSE :: bool
  dp_FORCE :: bool
  dp_SKIP_BACKUP :: bool
  dp_SKIP_CHECKS :: bool
  dp_ROLLBACK_ON_FAILURE :: bool

text \<open>
  After its own validation the orchestrator launches the other stage scripts as child
  processes (checks, backups, sync, extensions, validation, rollback). That remainder of
  the workflow is a parameter of the environment here: it maps the file system to the
  exit status and the file system it leaves.
\<close>

record deploy_env =
  dp_PROJECT_ROOT :: path
  dp_DEPLOYMENT_ID :: string
  dp_DIRECTUS_PROD_PATH :: path
  dp_DEPLOY_DRY_RUN :: bool
  dp_has_command :: "string \<Rightarrow> bool"
  dp_readable :: "path \<Rightarrow> bool"
  dp_writable :: "path \<Rightarrow> bool"
  dp_json_valid :: "string \<Rightarrow> bool"
  dp_workflow :: "fs \<Rightarrow> nat \<times> fs"

definition dp_dry_run :: "deploy_opts \<Rightarrow> deploy_env \<Rightarrow> bool" where
  "dp_dry_run opts env = (dp_DRY_RUN opts \<or> dp_DEPLOY_DRY_RUN env)"

definition dp_source :: "deploy_opts \<Rightarrow> deploy_env \<Rightarrow> path" where
  "dp_source opts env = (if dp_SOURCE_DIR opts = [] then dp_PROJECT_ROOT env else dp_SOURCE_DIR opts)"

definition dp_target :: "deploy_opts \<Rightarrow> deploy_env \<Rightarrow> path" where
  "dp_target opts env = (if dp_TARGET_DIR opts = [] then dp_DIRECTUS_PROD_PATH env else dp_TARGET_DIR opts)"

text \<open>
  \<^verbatim>\<open>setup_deployment_logging\<close> runs first in \<^verbatim>\<open>main\<close>: in a live run the log file of the
  deployment exists before anything has been validated. Under \<^verbatim>\<open>set -e\<close> the script ends
  with status 1 when \<^verbatim>\<open>mkdir -p\<close> meets a regular file on its way or the log file cannot
  be written. Of the log file only the first line is kept here.
\<close>

definition setup_deployment_logging :: "deploy_opts \<Rightarrow> deploy_env \<Rightarrow> fs \<Rightarrow> nat option \<times> fs" where
  "setup_deployment_logging opts env t =
     (if dp_dry_run opts env then (None, t)
      else let log_dir = dp_PROJECT_ROOT env @ [''logs''];
               DEPLOYMENT_LOG = log_dir @ [''deployment-'' @ dp_DEPLOYMENT_ID env @ ''.log'']
           in if list_ex (is_file t) (prefixes log_dir) then (Some 1, t)
              else case write_at DEPLOYMENT_LOG ''# Directus Deployment Log'' (mkdir_p log_dir t) of
                     (s, t') \<Rightarrow> if s \<noteq> 0 then (Some 1, t') else (None, t'))"

definition load_configuration :: "deploy_opts \<Rightarrow> deploy_env \<Rightarrow> fs \<Rightarrow> nat option" where
  "load_configuration opts env t =
     (if \<not> is_file t (dp_CONFIG_FILE opts) then Some 2
      else if \<not> dp_json_valid env (file_content t (dp_CONFIG_FILE opts)) then Some 2
      else None)"

definition validate_prerequisites :: "deploy_opts \<Rightarrow> deploy_env \<Rightarrow> fs \<Rightarrow> nat option \<times> fs" where
  "validate_prerequisites opts env t =
     (let source = dp_source opts env; target = dp_target opts env
      in if \<not> dp_has_command env ''rsync'' then (Some 2, t)
         else if \<not> dp_has_command env ''python3'' then (Some 2, t)
         else if \<not> is_dir t source then (Some 2, t)
         else if \<not> dp_readable env source then (Some 2, t)
         else if target = [] then (Some 2, t)
         else if dp_dry_run opts env
         then (if \<not> is_dir t (dirname target) then (Some 2, t) else (None, t))
         else let t' = (if \<not> is_dir t target then mkdir_p target t else t)
              in if \<not> dp_writable env target then (Some 2, t') else (None, t'))"

definition deploy_main :: "deploy_opts \<Rightarrow> deploy_env \<Rightarrow> fs \<Rightarrow> nat \<times> fs" where
  "deploy_main opts env t =
     (case setup_deployment_logging opts env t of
        (Some code, t0) \<Rightarrow> (code, t0)
      | (None, t0) \<Rightarrow>
         (case load_configuration opts env t0 of
            Some code \<Rightarrow> (code, t0)
          | None \<Rightarrow>
             (case validate_prerequisites opts env t0 of
                (Some code, t1) \<Rightarrow> (code, t1)
              | (None, t1) \<Rightarrow> dp_workflow env t1)))"

section \<open>deploy-extensions.sh\<close>

record extensions_opts =
  de_SOURCE_EXTENSIONS_DIR :: path
  de_TARGET_EXTENSIONS_DIR :: path
  de_DRY_RUN :: bool
  de_VERBOSE :: bool
  de_BACKUP_EXISTING :: bool
  de_INSTALL_DEPS :: bool

text \<open>
  The environment gives, for the content of \<^verbatim>\<open>deploy-config.json\<close>, the patterns under
  \<^verbatim>\<open>extension_sync.exclude_patterns\<close> that the embedded snippet prints (none when the key
  is absent or the snippet fails), and the outcome of the package manager in a plugin
  directory. What the package manager writes there is not recorded. \<open>de_same_mtime\<close> tells
  rsync whether a file of the source and one of the target carry the same modification
  time. \<open>de_eval\<close> is what \<^verbatim>\<open>eval\<close> makes of an rsync command whose pattern text holds a
  character that is special to the shell: it is given the pattern text, the two
  directories and the file system. The paths of the options and of the environment are
  absolute, so that the working directory, which the script changes for the package
  manager, plays no part.
\<close>

record extensions_env =
  de_SCRIPT_DIR :: path
  de_clock :: string
  de_date :: string
  de_DIRECTUS_EXTENSIONS_PATH :: path
  de_json_valid :: "string \<Rightarrow> bool"
  de_writable :: "path \<Rightarrow> bool"
  de_exclude_patterns :: "string \<Rightarrow> string list"
  de_has_yarn :: bool
  de_npm_install :: "path \<Rightarrow> bool"
  de_yarn_install :: "path \<Rightarrow> bool"
  de_same_mtime :: "path \<Rightarrow> path \<Rightarrow> bool"
  de_eval :: "string \<Rightarrow> path \<Rightarrow> path \<Rightarrow> fs \<Rightarrow> fs"

definition de_CONFIG_FILE :: "extensions_env \<Rightarrow> path" where
  "de_CONFIG_FILE env = de_SCRIPT_DIR env @ [''deploy-config.json'']"

definition de_config :: "extensions_env \<Rightarrow> fs \<Rightarrow> string" where
  "de_config env t = file_content t (de_CONFIG_FILE env)"

definition de_target :: "extensions_opts \<Rightarrow> extensions_env \<Rightarrow> path" where
  "de_target opts env =
     (if de_TARGET_EXTENSIONS_DIR opts = [] then de_DIRECTUS_EXTENSIONS_PATH env
      else de_TARGET_EXTENSIONS_DIR opts)"

definition error_line :: "string \<Rightarrow> string \<Rightarrow> string" where
  "error_line clock msg = ''['' @ clock @ ''] ERROR: '' @ msg"

definition de_load_config :: "extensions_env \<Rightarrow> fs \<Rightarrow> nat option" where
  "de_load_config env t =
     (if \<not> is_file t (de_CONFIG_FILE env) then Some 1
      else if \<not> de_json_valid env (de_config env t) then Some 1
      else None)"

definition de_validate_directories :: "extensions_opts \<Rightarrow> extensions_env \<Rightarrow> fs \<Rightarrow> nat option \<times> fs" where
  "de_validate_directories opts env t =
     (let target = de_target opts env
      in if \<not> is_dir t (de_SOURCE_EXTENSIONS_DIR opts) then (Some 1, t)
         else if target = [] then (Some 1, t)
         else if de_DRY_RUN opts then (None, t)
         else if \<not> is_dir t target \<and> list_ex (is_file t) (prefixes target) then (Some 1, t)
         else let t' = (if \<not> is_dir t target then mkdir_p target t else t)
              in if \<not> de_writable env target then (Some 1, t') else (None, t'))"

text \<open>
  \<^verbatim>\<open>scan_extensions\<close> lists the child directories of the source whose name does not start
  with a dot, in the order \<^verbatim>\<open>find\<close> reports them. The list goes to a temporary file,
  which is kept here as a value; \<open>None\<close> means the file was not written.
\<close>

definition scan_extensions :: "extensions_opts \<Rightarrow> fs \<Rightarrow> string list option" where
  "scan_extensions opts t =
     (let extensions = filter (\<lambda>extension_name. take 1 extension_name \<noteq> ''.'')
                         (map (\<lambda>(p, e). basename p)
                            (filter (\<lambda>(p, e). e = Dir \<and> p \<noteq> [] \<and> dirname p = de_SOURCE_EXTENSIONS_DIR opts) t))
      in if extensions = [] then None else Some extensions)"

definition backup_existing_extensions :: "extensions_opts \<Rightarrow> extensions_env \<Rightarrow> fs \<Rightarrow> nat \<times> fs" where
  "backup_existing_extensions opts env t =
     (let target = de_target opts env
      in if \<not> de_BACKUP_EXISTING opts then (0, t)
         else if \<not> is_dir t target then (0, t)
         else if de_DRY_RUN opts then (0, t)
         else if has_children t target then cp_r target (with_suffix target (''.backup-'' @ de_date env)) t
         else (0, t))"

text \<open>
  \<^verbatim>\<open>get_extension_exclude_patterns\<close> is called as \<^verbatim>\<open>$(...)\<close>; these are the lines it
  prints. The configured patterns come one per line; the defaults are a single line.
\<close>

definition default_extension_excludes :: "string list" where
  "default_extension_excludes = [''node_modules/'', ''.git/'', ''*.log'', ''.tmp/'', ''.cache/'']"

definition get_extension_exclude_patterns :: "extensions_opts \<Rightarrow> extensions_env \<Rightarrow> fs \<Rightarrow> string list" where
  "get_extension_exclude_patterns opts env t =
     (let configured = map (\<lambda>pattern. ''--exclude='' @ pattern) (de_exclude_patterns env (de_config env t));
          exclude_patterns = (if capture configured = []
                              then [words_line (map (\<lambda>pattern. ''--exclude='' @ pattern) default_extension_excludes)]
                              else configured)
      in verbose_line (de_VERBOSE opts) (de_clock env) ''Getting extension exclude patterns from configuration...'' @
         verbose_line (de_VERBOSE opts) (de_clock env) (''Extension exclude patterns: '' @ capture exclude_patterns) @
         exclude_patterns)"

definition extension_rules :: "extensions_env \<Rightarrow> fs \<Rightarrow> rule list" where
  "extension_rules env t =
     map Exclude (if de_exclude_patterns env (de_config env t) = [] then default_extension_excludes
                  else de_exclude_patterns env (de_config env t))"

definition validate_extension :: "fs \<Rightarrow> path \<Rightarrow> nat" where
  "validate_extension t extension_dir = (if \<not> is_file t (extension_dir @ [''package.json'']) then 1 else 0)"

text \<open>
  A pattern that reaches rsync through \<^verbatim>\<open>eval\<close> as the one word \<^verbatim>\<open>--exclude=PATTERN\<close>: it has
  no blank and no character that the shell would expand, quote or take as an operator.
\<close>

definition shell_word :: "string \<Rightarrow> bool" where
  "shell_word s =
     list_all (\<lambda>c. c \<notin> set [CHR '' '', CHR 0x09, CHR 0x0A, CHR 0x22, CHR 0x27, CHR 0x60, CHR 0x5C,
                              CHR ''$'', CHR '';'', CHR ''&'', CHR ''|'', CHR ''<'', CHR ''>'', CHR ''('', CHR '')'',
                              CHR ''{'', CHR ''}'']) s"

text \<open>
  \<^verbatim>\<open>deploy_extension\<close> is called as \<^verbatim>\<open>if ! deploy_extension ...\<close>, so \<^verbatim>\<open>set -e\<close> is off inside
  it. The rsync command always carries \<^verbatim>\<open>--delete\<close>. It is run through \<^verbatim>\<open>eval\<close>: when the
  captured pattern text holds a newline, the text is not one rsync command with the two
  directories as operands, nothing is synchronised, and the function still returns 0
  because its last command is a \<^verbatim>\<open>verbose_log\<close>. The status of rsync is lost in the same
  way. A pattern of the working directory's files is not expanded, no file there having
  a name that begins with \<^verbatim>\<open>--exclude=\<close>.
\<close>

definition deploy_extension :: "extensions_opts \<Rightarrow> extensions_env \<Rightarrow> string \<Rightarrow> fs \<Rightarrow> nat \<times> fs" where
  "deploy_extension opts env extension_name t =
     (let source_ext_dir = de_SOURCE_EXTENSIONS_DIR opts @ [extension_name];
          target_ext_dir = de_target opts env @ [extension_name];
          exclude_patterns = capture (get_extension_exclude_patterns opts env t)
      in if validate_extension t source_ext_dir \<noteq> 0 then (1, t)
         else if de_DRY_RUN opts then (0, t)
         else if \<not> list_all shell_word (de_exclude_patterns env (de_config env t))
         then (0, de_eval env exclude_patterns source_ext_dir target_ext_dir (mkdir_p target_ext_dir t))
         else if newline \<in> set exclude_patterns
         then (0, mkdir_p target_ext_dir t)
         else (0, snd (rsync (de_same_mtime env) True (extension_rules env t) source_ext_dir target_ext_dir
                         (mkdir_p target_ext_dir t))))"

text \<open>
  \<^verbatim>\<open>install_extension_dependencies\<close>: the status and the error line of a package manager
  that failed.
\<close>

definition install_extension_dependencies ::
    "extensions_opts \<Rightarrow> extensions_env \<Rightarrow> string \<Rightarrow> fs \<Rightarrow> nat \<times> string list" where
  "install_extension_dependencies opts env extension_name t =
     (let target_ext_dir = de_target opts env @ [extension_name];
          npm = (if de_npm_install env target_ext_dir then (0, [])
                 else (1, [error_line (de_clock env) (''Failed to install npm dependencies for '' @ extension_name)]));
          yarn = (if de_yarn_install env target_ext_dir then (0, [])
                  else (1, [error_line (de_clock env) (''Failed to install yarn dependencies for '' @ extension_name)]))
      in if \<not> de_INSTALL_DEPS opts then (0, [])
         else if de_DRY_RUN opts then (0, [])
         else if \<not> is_file t (target_ext_dir @ [''package.json'']) then (0, [])
         else if \<not> contains (quoted ''dependencies'') (file_content t (target_ext_dir @ [''package.json'']))
         then (0, [])
         else if is_file t (target_ext_dir @ [''package-lock.json'']) then npm
         else if is_file t (target_ext_dir @ [''yarn.lock'']) \<and> de_has_yarn env then yarn
         else npm)"

text \<open>
  The loop of \<^verbatim>\<open>main\<close> over the scanned names. The state is the flag
  \<^verbatim>\<open>deployment_failed\<close>, the file system and a record of the output: the line that
  announces a plugin, the three error lines of a plugin whose deployment failed, and the
  two error lines of a failed installation. A failed plugin sets the flag and the loop
  continues with the next name.
\<close>

fun deploy_each ::
    "extensions_opts \<Rightarrow> extensions_env \<Rightarrow> string list \<Rightarrow> bool \<times> fs \<times> string list \<Rightarrow> bool \<times> fs \<times> string list" where
  "deploy_each opts env [] st = st"
| "deploy_each opts env (extension_name # rest) (deployment_failed, t, out) =
     (let started = out @ [log_line (de_clock env) (''Deploying extension: '' @ extension_name)]
      in case deploy_extension opts env extension_name t of
           (s, t1) \<Rightarrow>
             if s \<noteq> 0
             then deploy_each opts env rest
                    (True, t1, started @
                       [error_line (de_clock env) (''Extension '' @ extension_name @ '' missing package.json''),
                        error_line (de_clock env) (''Extension validation failed: '' @ extension_name),
                        error_line (de_clock env) (''Failed to deploy extension: '' @ extension_name)])
             else case install_extension_dependencies opts env extension_name t1 of
                    (installed, said) \<Rightarrow>
                      if installed \<noteq> 0
                      then deploy_each opts env rest
                             (True, t1, started @ said @
                                [error_line (de_clock env) (''Failed to install dependencies for: '' @ extension_name)])
                      else deploy_each opts env rest (deployment_failed, t1, started))"

text \<open>
  \<^verbatim>\<open>verify_deployment\<close> reads the list of names back and collects those without a target
  directory or without a \<^verbatim>\<open>package.json\<close> in it.
\<close>

definition failed_extensions :: "extensions_opts \<Rightarrow> extensions_env \<Rightarrow> string list \<Rightarrow> fs \<Rightarrow> string list" where
  "failed_extensions opts env names t =
     filter (\<lambda>extension_name.
               \<not> is_dir t (de_target opts env @ [extension_name]) \<or>
               \<not> is_file t (de_target opts env @ [extension_name, ''package.json''])) names"

definition verify_deployment :: "extensions_opts \<Rightarrow> extensions_env \<Rightarrow> string list option \<Rightarrow> fs \<Rightarrow> nat" where
  "verify_deployment opts env listed t =
     (case listed of
        None \<Rightarrow> 0
      | Some names \<Rightarrow>
          if de_DRY_RUN opts then 0
          else if failed_extensions opts env names t \<noteq> [] then 1 else 0)"

text \<open>
  \<^verbatim>\<open>main\<close>: exit status, file system, and the recorded output: that of the loop, the error
  line of a failed verification, which names the plugins it misses, and the closing error
  line of a failed run. \<^verbatim>\<open>set_extension_permissions\<close> only changes modes.
\<close>

definition extensions_main ::
    "extensions_opts \<Rightarrow> extensions_env \<Rightarrow> fs \<Rightarrow> nat \<times> fs \<times> string list" where
  "extensions_main opts env t =
     (case de_load_config env t of
        Some code \<Rightarrow> (code, t, [])
      | None \<Rightarrow>
         (case de_validate_directories opts env t of
            (Some code, t1) \<Rightarrow> (code, t1, [])
          | (None, t1) \<Rightarrow>
             (case backup_existing_extensions opts env t1 of
                (s2, t2) \<Rightarrow>
                  if s2 \<noteq> 0 then (s2, t2, [])
                  else case deploy_each opts env (case scan_extensions opts t1 of None \<Rightarrow> [] | Some names \<Rightarrow> names)
                              (False, t2, []) of
                         (deployment_failed, t3, out) \<Rightarrow>
                           (let unverified = (verify_deployment opts env (scan_extensions opts t1) t3 \<noteq> 0);
                                verified = out @
                                  (if unverified
                                   then [error_line (de_clock env)
                                           (''Failed to deploy extensions: '' @
                                            words_line (failed_extensions opts env
                                              (case scan_extensions opts t1 of None \<Rightarrow> [] | Some names \<Rightarrow> names) t3))]
                                   else [])
                            in if deployment_failed \<or> unverified
                               then (1, t3, verified @
                                       [error_line (de_clock env) ''Extension deployment completed with errors''])
                               else (0, t3, verified)))))"

section \<open>Example runs\<close>

text \<open>
  A project under \<^verbatim>\<open>/srv/project\<close>, a live target \<^verbatim>\<open>/srv/www\<close> holding an upload, and a
  direct backup \<^verbatim>\<open>/srv/bk\<close> of the application code. The metadata content \<^verbatim>\<open>old\<close> stands
  for a sidecar whose timestamp lies 45 days back, any other non-empty content for one
  that is two days old.
\<close>

definition ex_rollback_env :: rollback_env where
  "ex_rollback_env =
     \<lparr>rb_PROJECT_ROOT = [''srv'', ''project''], rb_ROLLBACK_ID = ''rollback-20240601-120000-4242'',
      rb_date = ''20240601-120000'', rb_json_valid = (\<lambda>c. c \<noteq> []),
      rb_days_ago = (\<lambda>c. if c = ''old'' then 45 else 2),
      rb_readable = (\<lambda>p. True), rb_writable = (\<lambda>p. True), rb_response = ''no'',
      rb_validation_script = False, rb_validate_deployment = (\<lambda>t p. True),
      rb_same_mtime = (\<lambda>p q. False)\<rparr>"

definition ex_rollback_opts :: rollback_opts where
  "ex_rollback_opts =
     \<lparr>rb_BACKUP_DIR = [''srv'', ''bk''], rb_TARGET_DIR = [''srv'', ''www''], rb_DRY_RUN = False,
      rb_VERBOSE = False, rb_FORCE = True, rb_VERIFY_ONLY = False, rb_CHECK_HEALTH = False,
      rb_SKIP_CONFIRMATION = False\<rparr>"

definition ex_site :: fs where
  "ex_site =
     [([''srv''], Dir), ([''srv'', ''project''], Dir),
      ([''srv'', ''bk''], Dir), ([''srv'', ''bk'', ''package.json''], File ''v1''),
      ([''srv'', ''www''], Dir), ([''srv'', ''www'', ''package.json''], File ''v2''),
      ([''srv'', ''www'', ''uploads''], Dir),
      ([''srv'', ''www'', ''uploads'', ''a.png''], File ''A'')]"

definition ex_site_fresh :: fs where
  "ex_site_fresh = write_file [''srv'', ''bk'', ''backup-metadata.json''] ''fresh'' ex_site"

definition ex_site_old :: fs where
  "ex_site_old = write_file [''srv'', ''bk'', ''backup-metadata.json''] ''old'' ex_site"

text \<open>
  A file backup with a sidecar, a summary and two payload files, one of them empty. The
  field readers report the type \<^verbatim>\<open>files\<close>, a well-formed timestamp and a file count of 2.
\<close>

definition ex_verify_env :: verify_env where
  "ex_verify_env =
     \<lparr>vb_BACKUP_BASE_DIR = [''srv'', ''project'', ''backups''], vb_cwd = [''srv'', ''project''],
      vb_clock = ''2024-06-01 12:00:00'', vb_has_python3 = True,
      vb_json_valid = (\<lambda>c. c \<noteq> []),
      vb_json_text = (\<lambda>c k. if k = ''backup_type'' then ''files'' else ''2024-06-01T12-00-00''),
      vb_json_number = (\<lambda>c k. 2),
      vb_sort_tail = (\<lambda>ls. if ls = [] then [] else last ls)\<rparr>"

definition ex_verify_opts :: verify_opts where
  "ex_verify_opts =
     \<lparr>vb_VERBOSE = False, vb_BACKUP_DIR = [''srv'', ''project'', ''backups'', ''directus-files-backup-1''],
      vb_CHECK_DATABASE = False, vb_CHECK_FILES = True, vb_QUICK_CHECK = False\<rparr>"

definition ex_file_backup :: fs where
  "ex_file_backup =
     [([''srv''], Dir), ([''srv'', ''project''], Dir), ([''srv'', ''project'', ''backups''], Dir),
      ([''srv'', ''project'', ''backups'', ''directus-files-backup-1''], Dir),
      ([''srv'', ''project'', ''backups'', ''directus-files-backup-1'', ''backup-metadata.json''], File ''metadata''),
      ([''srv'', ''project'', ''backups'', ''directus-files-backup-1'', ''README.md''], File ''# File Backup''),
      ([''srv'', ''project'', ''backups'', ''directus-files-backup-1'', ''files''], Dir),
      ([''srv'', ''project'', ''backups'', ''directus-files-backup-1'', ''files'', ''a.jpg''], File ''image''),
      ([''srv'', ''project'', ''backups'', ''directus-files-backup-1'', ''files'', ''empty.txt''], File [])]"

text \<open>
  The project with its deployment scripts, a configuration and an environment file that
  sets no database variable. Every tool is installed and every permission granted.
\<close>

definition ex_project :: fs where
  "ex_project =
     [([''srv''], Dir), ([''srv'', ''project''], Dir),
      ([''srv'', ''project'', ''.env''], File ''PUBLIC_URL=https://cms.example.org''),
      ([''srv'', ''project'', ''.env.production''], File ''PUBLIC_URL=https://cms.example.org''),
      ([''srv'', ''project'', ''package.json''], File ''v2''),
      ([''srv'', ''project'', ''scripts''], Dir),
      ([''srv'', ''project'', ''scripts'', ''deployment''], Dir),
      ([''srv'', ''project'', ''scripts'', ''deployment'', ''deploy-config.json''], File ''config''),
      ([''srv'', ''project'', ''scripts'', ''deployment'', ''deploy.sh''], File ''script''),
      ([''srv'', ''project'', ''uploads''], Dir),
      ([''srv'', ''project'', ''uploads'', ''a.jpg''], File ''image''),
      ([''srv'', ''project'', ''uploads'', ''.DS_Store''], File ''finder''),
      ([''srv'', ''www''], Dir),
      ([''srv'', ''www'', ''package.json''], File ''v1'')]"

definition ex_precheck_opts :: precheck_opts where
  "ex_precheck_opts =
     \<lparr>pc_SOURCE_DIR = [''srv'', ''project''], pc_TARGET_DIR = [''srv'', ''www''], pc_DRY_RUN = False,
      pc_VERBOSE = False, pc_CHECK_DATABASE = True, pc_CHECK_DISK_SPACE = True,
      pc_CHECK_PERMISSIONS = True, pc_CHECK_SERVICES = True\<rparr>"

definition ex_precheck_env :: precheck_env where
  "ex_precheck_env =
     \<lparr>pc_PROJECT_ROOT = [''srv'', ''project''], pc_SCRIPT_DIR = [''srv'', ''project'', ''scripts'', ''deployment''],
      pc_has_command = (\<lambda>c. True), pc_node_major = 22, pc_df_available_kb = (\<lambda>p. 50000000),
      pc_readable = (\<lambda>p. True), pc_writable = (\<lambda>p. True), pc_executable = (\<lambda>p. True),
      pc_unreadable_files = (\<lambda>p. False), pc_variable_after_source = (\<lambda>c v. []),
      pc_pg_isready = True, pc_json_valid = (\<lambda>c. True), pc_json_has_key = (\<lambda>c k. True)\<rparr>"

text \<open>The four stage scripts pointed at the source \<^verbatim>\<open>/srv/missing\<close>, which does not exist.\<close>

definition ex_sync_opts :: sync_opts where
  "ex_sync_opts =
     \<lparr>sc_SOURCE_DIR = [''srv'', ''missing''], sc_TARGET_DIR = [''srv'', ''www''], sc_DRY_RUN = False,
      sc_VERBOSE = False, sc_FORCE = False, sc_USE_STAGING = True\<rparr>"

definition ex_sync_env :: sync_env where
  "ex_sync_env =
     \<lparr>sc_PROJECT_ROOT = [''srv'', ''project''], sc_SCRIPT_DIR = [''srv'', ''project'', ''scripts'', ''deployment''],
      sc_cwd = [''srv'', ''project''], sc_clock = ''2024-06-01 12:00:00'', sc_epoch = ''1717243200'', sc_same_mtime = (\<lambda>p q. False),
      sc_DIRECTUS_PROD_PATH = [], sc_DEPLOY_DRY_RUN = False, sc_has_command = (\<lambda>c. True),
      sc_readable = (\<lambda>p. True), sc_writable = (\<lambda>p. True), sc_json_valid = (\<lambda>c. True),
      sc_exclude_patterns = (\<lambda>c. []), sc_include_patterns = (\<lambda>c. []),
      sc_rsync_options = (\<lambda>c. [''--archive'', ''--verbose'']),
      sc_staging_directory = (\<lambda>c. ''./deployment-staging''), sc_uncommitted_changes = False\<rparr>"

definition ex_filebackup_opts :: filebackup_opts where
  "ex_filebackup_opts =
     \<lparr>bf_SOURCE_DIR = [''srv'', ''missing''], bf_TARGET_DIR = [], bf_DRY_RUN = False, bf_VERBOSE = False,
      bf_EXCLUDE_CACHE = True\<rparr>"

definition ex_filebackup_env :: filebackup_env where
  "ex_filebackup_env =
     \<lparr>bf_PROJECT_ROOT = [''srv'', ''project''], bf_cwd = [''srv'', ''project''],
      bf_TIMESTAMP = ''2024-06-01T12-00-00'', bf_clock = ''2024-06-01 12:00:00'', bf_has_rsync = True, bf_same_mtime = (\<lambda>p q. False),
      bf_has_du = True, bf_readable = (\<lambda>p. True), bf_du = (\<lambda>p. ''8.0K''), bf_git_commit = ''unknown''\<rparr>"

definition ex_deploy_opts :: deploy_opts where
  "ex_deploy_opts =
     \<lparr>dp_SOURCE_DIR = [''srv'', ''missing''], dp_TARGET_DIR = [''srv'', ''www''],
      dp_CONFIG_FILE = [''srv'', ''project'', ''scripts'', ''deployment'', ''deploy-config.json''],
      dp_DRY_RUN = False, dp_VERBOSE = False, dp_FORCE = False, dp_SKIP_BACKUP = False,
      dp_SKIP_CHECKS = False, dp_ROLLBACK_ON_FAILURE = True\<rparr>"

definition ex_deploy_env :: deploy_env where
  "ex_deploy_env =
     \<lparr>dp_PROJECT_ROOT = [''srv'', ''project''], dp_DEPLOYMENT_ID = ''deploy-20240601-120000-4242'',
      dp_DIRECTUS_PROD_PATH = [], dp_DEPLOY_DRY_RUN = False, dp_has_command = (\<lambda>c. True),
      dp_readable = (\<lambda>p. True), dp_writable = (\<lambda>p. True), dp_json_valid = (\<lambda>c. True),
      dp_workflow = (\<lambda>t. (0, t))\<rparr>"

text \<open>
  A backup of the kind \<^verbatim>\<open>backup-files.sh --source /srv/www\<close> produces: the payload sits
  under \<^verbatim>\<open>files/\<close> and holds the whole target of that day, \<^verbatim>\<open>uploads/\<close> included. Since
  then \<^verbatim>\<open>a.png\<close> has been replaced and \<^verbatim>\<open>b.png\<close> uploaded.
\<close>

definition ex_wrapped :: fs where
  "ex_wrapped =
     [([''srv''], Dir), ([''srv'', ''project''], Dir),
      ([''srv'', ''bk''], Dir),
      ([''srv'', ''bk'', ''backup-metadata.json''], File ''fresh''),
      ([''srv'', ''bk'', ''files''], Dir),
      ([''srv'', ''bk'', ''files'', ''package.json''], File ''v1''),
      ([''srv'', ''bk'', ''files'', ''uploads''], Dir),
      ([''srv'', ''bk'', ''files'', ''uploads'', ''a.png''], File ''A-old''),
      ([''srv'', ''www''], Dir), ([''srv'', ''www'', ''package.json''], File ''v2''),
      ([''srv'', ''www'', ''uploads''], Dir),
      ([''srv'', ''www'', ''uploads'', ''a.png''], File ''A''),
      ([''srv'', ''www'', ''uploads'', ''b.png''], File ''B'')]"

text \<open>
  A staging directory as a staged sync fills it (the new code, and no \<^verbatim>\<open>uploads/\<close>, which
  the exclusion patterns keep out of the transfer) beside the live target.
\<close>

definition ex_staged :: fs where
  "ex_staged =
     [([''srv''], Dir), ([''srv'', ''project''], Dir),
      ([''srv'', ''project'', ''deployment-staging''], Dir),
      ([''srv'', ''project'', ''deployment-staging'', ''package.json''], File ''v2''),
      ([''srv'', ''www''], Dir), ([''srv'', ''www'', ''package.json''], File ''v1''),
      ([''srv'', ''www'', ''uploads''], Dir),
      ([''srv'', ''www'', ''uploads'', ''a.png''], File ''A'')]"

definition ex_staged_opts :: sync_opts where
  "ex_staged_opts =
     \<lparr>sc_SOURCE_DIR = [''srv'', ''project''], sc_TARGET_DIR = [''srv'', ''www''], sc_DRY_RUN = False,
      sc_VERBOSE = False, sc_FORCE = False, sc_USE_STAGING = True\<rparr>"

definition ex_uploads_backup_opts :: filebackup_opts where
  "ex_uploads_backup_opts =
     \<lparr>bf_SOURCE_DIR = [], bf_TARGET_DIR = [], bf_DRY_RUN = False, bf_VERBOSE = False,
      bf_EXCLUDE_CACHE = True\<rparr>"

definition ex_uploads_backup_dir :: path where
  "ex_uploads_backup_dir = [''srv'', ''project'', ''backups'', ''directus-files-backup-2024-06-01T12-00-00'']"

text \<open>A database backup in which \<^verbatim>\<open>pg_dump\<close> exits with status 0 and writes no byte.\<close>

definition ex_dbbackup_opts :: dbbackup_opts where
  "ex_dbbackup_opts = \<lparr>bd_DRY_RUN = False, bd_VERBOSE = False\<rparr>"

definition ex_dbbackup_env :: dbbackup_env where
  "ex_dbbackup_env =
     \<lparr>bd_PROJECT_ROOT = [''srv'', ''project''], bd_cwd = [''srv'', ''project''],
      bd_TIMESTAMP = ''2024-06-01T12-00-00'', bd_clock = ''2024-06-01 12:00:00'', bd_has_pg_dump = True,
      bd_DB_HOST = ''localhost'', bd_DB_PORT = ''5432'', bd_DB_DATABASE = ''directus'',
      bd_DB_USER = ''postgres'', bd_pg_isready = True, bd_pg_dump = (0, []),
      bd_du = (\<lambda>bytes. if bytes = [] then ''0'' else ''4.0K''), bd_git_commit = ''unknown''\<rparr>"

definition ex_dbbackup_dir :: path where
  "ex_dbbackup_dir = [''srv'', ''project'', ''backups'', ''directus-db-backup-2024-06-01T12-00-00'']"

text \<open>
  Three plugins under \<^verbatim>\<open>/srv/project/extensions\<close>, found in the order \<^verbatim>\<open>ai\<close>, \<^verbatim>\<open>broken\<close>,
  \<^verbatim>\<open>search\<close>; \<^verbatim>\<open>broken\<close> has no \<^verbatim>\<open>package.json\<close>. The target already holds an older \<^verbatim>\<open>ai\<close>
  with a file \<^verbatim>\<open>old.js\<close> that the source no longer has. The configuration names no
  extension patterns, so the defaults apply.
\<close>

definition ex_plugins :: fs where
  "ex_plugins =
     [([''srv''], Dir), ([''srv'', ''project''], Dir),
      ([''srv'', ''project'', ''scripts''], Dir),
      ([''srv'', ''project'', ''scripts'', ''deployment''], Dir),
      ([''srv'', ''project'', ''scripts'', ''deployment'', ''deploy-config.json''], File ''config''),
      ([''srv'', ''project'', ''extensions''], Dir),
      ([''srv'', ''project'', ''extensions'', ''ai''], Dir),
      ([''srv'', ''project'', ''extensions'', ''ai'', ''package.json''], File ''ai 2.0''),
      ([''srv'', ''project'', ''extensions'', ''ai'', ''index.js''], File ''new code''),
      ([''srv'', ''project'', ''extensions'', ''broken''], Dir),
      ([''srv'', ''project'', ''extensions'', ''broken'', ''index.js''], File ''code''),
      ([''srv'', ''project'', ''extensions'', ''search''], Dir),
      ([''srv'', ''project'', ''extensions'', ''search'', ''package.json''], File ''search 1.0''),
      ([''srv'', ''www''], Dir), ([''srv'', ''www'', ''extensions''], Dir),
      ([''srv'', ''www'', ''extensions'', ''ai''], Dir),
      ([''srv'', ''www'', ''extensions'', ''ai'', ''package.json''], File ''ai 1.0''),
      ([''srv'', ''www'', ''extensions'', ''ai'', ''old.js''], File ''stale'')]"


definition ex_extensions_opts :: extensions_opts where
  "ex_extensions_opts =
     \<lparr>de_SOURCE_EXTENSIONS_DIR = [''srv'', ''project'', ''extensions''],
      de_TARGET_EXTENSIONS_DIR = [''srv'', ''www'', ''extensions''], de_DRY_RUN = False, de_VERBOSE = False,
      de_BACKUP_EXISTING = True, de_INSTALL_DEPS = True\<rparr>"

definition ex_extensions_env :: extensions_env where
  "ex_extensions_env =
     \<lparr>de_SCRIPT_DIR = [''srv'', ''project'', ''scripts'', ''deployment''], de_clock = ''2024-06-01 12:00:00'',
      de_date = ''20240601-120000'', de_DIRECTUS_EXTENSIONS_PATH = [], de_json_valid = (\<lambda>c. True),
      de_writable = (\<lambda>p. True), de_exclude_patterns = (\<lambda>c. []), de_has_yarn = False,
      de_npm_install = (\<lambda>p. True), de_yarn_install = (\<lambda>p. True),
      de_same_mtime = (\<lambda>p q. False), de_eval = (\<lambda>patterns source target t. t)\<rparr>"

section \<open>Facts about the file system\<close>

text \<open>Looking paths up after \<^verbatim>\<open>mkdir -p\<close> and after a file has been written.\<close>

lemma lookup_append:
  "lookup (t @ u) p = (case lookup t p of None \<Rightarrow> lookup u p | Some e \<Rightarrow> Some e)"
  by (simp add: lookup_def map_of_append map_add_def split: option.splits)

lemma map_of_const_list:
  "map_of (map (\<lambda>q. (q, v)) qs) p = (if p \<in> set qs then Some v else None)"
  by (induction qs) auto

lemma map_of_filter_key:
  "map_of (filter (\<lambda>(q, e). P q) t) p = (if P p then map_of t p else None)"
  by (induction t) auto

lemma lookup_mkdir_p:
  "lookup (mkdir_p d t) p =
     (case lookup t p of Some e \<Rightarrow> Some e
      | None \<Rightarrow> if p \<noteq> [] \<and> prefix p d then Some Dir else None)"
proof (cases "lookup t p")
  case None
  have "lookup (map (\<lambda>q. (q, Dir)) (filter (\<lambda>q. q \<noteq> [] \<and> lookup t q = None) (prefixes d))) p =
          (if p \<in> set (filter (\<lambda>q. q \<noteq> [] \<and> lookup t q = None) (prefixes d)) then Some Dir else None)"
    unfolding lookup_def by (rule map_of_const_list)
  with None show ?thesis
    by (simp add: mkdir_p_def lookup_append in_set_prefixes)
next
  case (Some e)
  then show ?thesis
    by (simp add: mkdir_p_def lookup_append)
qed






lemma lookup_write_file:
  "lookup (write_file p c t) q = (if q = p then Some (File c) else lookup t q)"
proof -
  have f: "lookup (filter (\<lambda>(q, e). q \<noteq> p) t) q = (if q \<noteq> p then lookup t q else None)"
    unfolding lookup_def by (rule map_of_filter_key)
  have "lookup (write_file p c t) q =
          (case lookup (filter (\<lambda>(q, e). q \<noteq> p) t) q of None \<Rightarrow> lookup [(p, File c)] q | Some e \<Rightarrow> Some e)"
    by (simp add: write_file_def overwrite_def lookup_append)
  with f show ?thesis
    by (simp add: lookup_def split: option.splits)
qed




section \<open>Properties of rollback.sh\<close>

lemma validate_parameters_code: "validate_parameters opts env t = Some c \<Longrightarrow> c = 2"
  by (simp add: validate_parameters_def split: if_splits)

text \<open>
  C7. Whenever backup verification counts at least one issue, \<^verbatim>\<open>rollback.sh\<close> exits with
  status 2 and leaves the file system as it was once the log file of the run had been
  created: nothing is backed up, staged or restored. The options do not matter, so
  \<^verbatim>\<open>--force\<close> changes nothing. With \<^verbatim>\<open>--verify-only\<close>, exit status 0 implies that the
  count was 0.
\<close>

theorem rollback_verification_gate:
  "(verify_backup_integrity opts env (setup_rollback_logging opts env t) \<noteq> 0 \<longrightarrow>
      rollback_main opts env t = (2, setup_rollback_logging opts env t)) \<and>
   (rb_VERIFY_ONLY opts \<and> fst (rollback_main opts env t) = 0 \<longrightarrow>
      verify_backup_integrity opts env (setup_rollback_logging opts env t) = 0)"
proof (cases "validate_parameters opts env (setup_rollback_logging opts env t)")
  case None
  then show ?thesis
    by (simp add: rollback_main_def Let_def)
next
  case (Some c)
  then have "c = 2" by (rule validate_parameters_code)
  with Some show ?thesis
    by (simp add: rollback_main_def Let_def)
qed

text \<open>
  The verification step at work: a forced rollback from the backup without a metadata sidecar stops
  with status 2, and a verify-only run on the backup with a fresh sidecar exits 0 with
  no issue counted.
\<close>

theorem rollback_verification_gate_witness:
  "verify_backup_integrity ex_rollback_opts ex_rollback_env
      (setup_rollback_logging ex_rollback_opts ex_rollback_env ex_site) \<noteq> 0 \<and>
   rb_FORCE ex_rollback_opts \<and>
   rollback_main ex_rollback_opts ex_rollback_env ex_site =
     (2, setup_rollback_logging ex_rollback_opts ex_rollback_env ex_site) \<and>
   rb_VERIFY_ONLY (ex_rollback_opts\<lparr>rb_VERIFY_ONLY := True\<rparr>) \<and>
   fst (rollback_main (ex_rollback_opts\<lparr>rb_VERIFY_ONLY := True\<rparr>) ex_rollback_env ex_site_fresh) = 0 \<and>
   verify_backup_integrity (ex_rollback_opts\<lparr>rb_VERIFY_ONLY := True\<rparr>) ex_rollback_env
      (setup_rollback_logging (ex_rollback_opts\<lparr>rb_VERIFY_ONLY := True\<rparr>) ex_rollback_env ex_site_fresh) = 0"
proof -
  have issue: "verify_backup_integrity ex_rollback_opts ex_rollback_env
      (setup_rollback_logging ex_rollback_opts ex_rollback_env ex_site) \<noteq> 0"
    by code_simp
  have force: "rb_FORCE ex_rollback_opts"
    by (simp add: ex_rollback_opts_def)
  have ok: "fst (rollback_main (ex_rollback_opts\<lparr>rb_VERIFY_ONLY := True\<rparr>) ex_rollback_env ex_site_fresh) = 0"
    by code_simp
  from issue force ok
    rollback_verification_gate [of ex_rollback_opts ex_rollback_env ex_site]
    rollback_verification_gate [of "ex_rollback_opts\<lparr>rb_VERIFY_ONLY := True\<rparr>" ex_rollback_env ex_site_fresh]
  show ?thesis by simp
qed

text \<open>
  C3. A backup that is valid in every other respect but 45 days old: no metadata issue,
  no database issue, yet the age is counted as an issue like any other, verification
  returns 1 and the forced rollback stops with status 2 before anything is restored.
\<close>

theorem stale_backup_aborts_rollback:
  "metadata_issues ex_rollback_opts ex_rollback_env ex_site_old = 0 \<and>
   database_issues ex_rollback_opts ex_site_old = 0 \<and>
   rb_days_ago ex_rollback_env (file_content ex_site_old [''srv'', ''bk'', ''backup-metadata.json'']) = 45 \<and>
   verify_backup_integrity ex_rollback_opts ex_rollback_env
     (setup_rollback_logging ex_rollback_opts ex_rollback_env ex_site_old) = 1 \<and>
   rollback_main ex_rollback_opts ex_rollback_env ex_site_old =
     (2, setup_rollback_logging ex_rollback_opts ex_rollback_env ex_site_old)"
  by code_simp

text \<open>The same for every backup whose sidecar exists and is more than 30 days old.\<close>

lemma stale_backup_is_an_issue:
  assumes "\<not> rb_DRY_RUN opts"
    and "is_file t (rb_BACKUP_DIR opts @ [''backup-metadata.json''])"
    and "rb_days_ago env (file_content t (rb_BACKUP_DIR opts @ [''backup-metadata.json''])) > 30"
  shows "verify_backup_integrity opts env t \<noteq> 0"
proof -
  have "age_issues opts env t = 1"
    using assms(2,3) by (simp add: age_issues_def)
  moreover have "metadata_issues opts env t \<le> 1"
    by (simp add: metadata_issues_def Let_def)
  moreover have "database_issues opts t \<le> 1"
    by (simp add: database_issues_def Let_def)
  ultimately show ?thesis
    using assms(1) by (simp add: verify_backup_integrity_def return_status_def)
qed

section \<open>Properties of verify-backup.sh\<close>

lemma verify_file_backup_zero_byte:
  assumes "\<not> vb_QUICK_CHECK opts" "zero_byte_files t (backup_dir @ [''files'']) > 0"
  shows "verify_file_backup opts t backup_dir \<noteq> 0"
  using assms by (simp add: verify_file_backup_def Let_def return_status_def)

text \<open>
  C9, as the claim states it, fails: the example backup is sound (structure and metadata
  consistency report nothing) and holds one zero-byte file, and \<^verbatim>\<open>verify-backup.sh
  --files-only\<close> exits with status 1, not 0.
\<close>

theorem zero_byte_file_counterexample:
  "verify_backup_structure ex_verify_env ex_file_backup (vb_BACKUP_DIR ex_verify_opts) = 0 \<and>
   verify_metadata_consistency ex_verify_env ex_file_backup (vb_BACKUP_DIR ex_verify_opts) = 0 \<and>
   zero_byte_files ex_file_backup (vb_BACKUP_DIR ex_verify_opts @ [''files'']) = 1 \<and>
   verify_main ex_verify_opts ex_verify_env ex_file_backup \<noteq> 0"
  by code_simp

text \<open>
  C9, amended. When the file check is enabled and not in quick mode, a zero-byte file in
  the payload is an issue of \<^verbatim>\<open>verify_file_backup\<close>, and \<^verbatim>\<open>verify-backup.sh\<close> exits with
  status 1.
\<close>

theorem zero_byte_file_fails_verification:
  assumes "vb_CHECK_FILES opts" "\<not> vb_QUICK_CHECK opts" "vb_BACKUP_DIR opts \<noteq> []"
    and "zero_byte_files t (vb_BACKUP_DIR opts @ [''files'']) > 0"
  shows "verify_main opts env t = 1"
proof -
  have "verify_file_backup opts t (vb_BACKUP_DIR opts) \<noteq> 0"
    using assms(2,4) by (rule verify_file_backup_zero_byte)
  with assms(1) have "total_issues opts env t (vb_BACKUP_DIR opts) \<noteq> 0"
    by (simp add: total_issues_def)
  with assms(3) show ?thesis
    by (simp add: verify_main_def)
qed

theorem zero_byte_file_fails_verification_witness:
  "vb_CHECK_FILES ex_verify_opts \<and> \<not> vb_QUICK_CHECK ex_verify_opts \<and> vb_BACKUP_DIR ex_verify_opts \<noteq> [] \<and>
   zero_byte_files ex_file_backup (vb_BACKUP_DIR ex_verify_opts @ [''files'']) > 0 \<and>
   verify_main ex_verify_opts ex_verify_env ex_file_backup = 1"
proof -
  have h1: "vb_CHECK_FILES ex_verify_opts" and h2: "\<not> vb_QUICK_CHECK ex_verify_opts"
    and h3: "vb_BACKUP_DIR ex_verify_opts \<noteq> []"
    by (simp_all add: ex_verify_opts_def)
  have h4: "zero_byte_files ex_file_backup (vb_BACKUP_DIR ex_verify_opts @ [''files'']) > 0"
    by code_simp
  from h1 h2 h3 h4 zero_byte_file_fails_verification [OF h1 h2 h3 h4, of ex_verify_env]
  show ?thesis by simp
qed

section \<open>Properties of pre-deployment-checks.sh\<close>

text \<open>
  C4, as the claim states it, fails: with the database category enabled and no
  \<^verbatim>\<open>DB_HOST\<close> or \<^verbatim>\<open>DB_DATABASE\<close> in the environment, the database check returns 1. In the
  example every other check passes, so this one issue is the whole total and the script
  exits with status 1.
\<close>

theorem missing_credentials_counterexample:
  "pc_CHECK_DATABASE ex_precheck_opts \<and>
   check_database ex_precheck_opts ex_precheck_env ex_project = 1 \<and>
   precheck_total ex_precheck_opts ex_precheck_env ex_project = 1 \<and>
   fst (precheck_main ex_precheck_opts ex_precheck_env ex_project) = 1"
  by code_simp

text \<open>
  C4, amended. In a live run with the database category enabled, if there is no
  environment file, or \<^verbatim>\<open>DB_HOST\<close> or \<^verbatim>\<open>DB_DATABASE\<close> is empty after the environment file has
  been sourced, the database check contributes exactly one issue and the script exits
  with status 1. The check contributes zero exactly when it is switched off, or the run
  is a dry run, or an environment file exists, both variables are set after sourcing it,
  and \<^verbatim>\<open>pg_isready\<close> is not installed or succeeds. It never contributes more than one.
\<close>

theorem missing_credentials_fail_database_check:
  "(pc_CHECK_DATABASE opts \<and> \<not> pc_DRY_RUN opts \<and>
    (case loaded_env_file env t of
       None \<Rightarrow> True
     | Some full_path \<Rightarrow>
         pc_variable_after_source env (file_content t full_path) ''DB_HOST'' = [] \<or>
         pc_variable_after_source env (file_content t full_path) ''DB_DATABASE'' = []) \<longrightarrow>
      check_database opts env t = 1 \<and> fst (precheck_main opts env t) = 1) \<and>
   (check_database opts env t = 0 \<longleftrightarrow>
      \<not> pc_CHECK_DATABASE opts \<or> pc_DRY_RUN opts \<or>
      (case loaded_env_file env t of
         None \<Rightarrow> False
       | Some full_path \<Rightarrow>
           pc_variable_after_source env (file_content t full_path) ''DB_HOST'' \<noteq> [] \<and>
           pc_variable_after_source env (file_content t full_path) ''DB_DATABASE'' \<noteq> [] \<and>
           (\<not> pc_has_command env ''pg_isready'' \<or> pc_pg_isready env))) \<and>
   check_database opts env t \<le> 1"
proof -
  have zero: "check_database opts env t = 0 \<longleftrightarrow>
      \<not> pc_CHECK_DATABASE opts \<or> pc_DRY_RUN opts \<or>
      (case loaded_env_file env t of
         None \<Rightarrow> False
       | Some full_path \<Rightarrow>
           pc_variable_after_source env (file_content t full_path) ''DB_HOST'' \<noteq> [] \<and>
           pc_variable_after_source env (file_content t full_path) ''DB_DATABASE'' \<noteq> [] \<and>
           (\<not> pc_has_command env ''pg_isready'' \<or> pc_pg_isready env))"
    by (auto simp add: check_database_def return_status_def split: option.splits)
  have most: "check_database opts env t \<le> 1"
    by (auto simp add: check_database_def return_status_def split: option.splits)
  have one: "check_database opts env t = 1 \<and> fst (precheck_main opts env t) = 1"
    if h: "pc_CHECK_DATABASE opts \<and> \<not> pc_DRY_RUN opts \<and>
      (case loaded_env_file env t of
         None \<Rightarrow> True
       | Some full_path \<Rightarrow>
           pc_variable_after_source env (file_content t full_path) ''DB_HOST'' = [] \<or>
           pc_variable_after_source env (file_content t full_path) ''DB_DATABASE'' = [])"
  proof -
    from h have db: "check_database opts env t = 1"
      by (auto simp add: check_database_def return_status_def split: option.splits)
    then have "precheck_total opts env t \<noteq> 0"
      by (simp add: precheck_total_def)
    with db show ?thesis
      by (simp add: precheck_main_def)
  qed
  from zero most one show ?thesis
    by blast
qed

theorem missing_credentials_fail_database_check_witness:
  "pc_CHECK_DATABASE ex_precheck_opts \<and> \<not> pc_DRY_RUN ex_precheck_opts \<and>
   loaded_env_file ex_precheck_env ex_project = Some [''srv'', ''project'', ''.env.production''] \<and>
   pc_variable_after_source ex_precheck_env
     (file_content ex_project [''srv'', ''project'', ''.env.production'']) ''DB_HOST'' = [] \<and>
   check_database ex_precheck_opts ex_precheck_env ex_project = 1 \<and>
   fst (precheck_main ex_precheck_opts ex_precheck_env ex_project) = 1 \<and>
   check_database (ex_precheck_opts\<lparr>pc_CHECK_DATABASE := False\<rparr>) ex_precheck_env ex_project = 0 \<and>
   check_database ex_precheck_opts
     (ex_precheck_env\<lparr>pc_variable_after_source := (\<lambda>content name. ''set''), pc_pg_isready := True\<rparr>)
     ex_project = 0 \<and>
   check_database ex_precheck_opts
     (ex_precheck_env\<lparr>pc_variable_after_source := (\<lambda>content name. ''set''), pc_pg_isready := False\<rparr>)
     ex_project \<noteq> 0"
proof -
  have h1: "pc_CHECK_DATABASE ex_precheck_opts" and h2: "\<not> pc_DRY_RUN ex_precheck_opts"
    by (simp_all add: ex_precheck_opts_def)
  have h3: "loaded_env_file ex_precheck_env ex_project = Some [''srv'', ''project'', ''.env.production'']"
    by code_simp
  have h4: "\<And>c v. pc_variable_after_source ex_precheck_env c v = []"
    by (simp add: ex_precheck_env_def)
  have h5: "pc_has_command ex_precheck_env ''pg_isready''"
    by code_simp
  let ?set = "ex_precheck_env\<lparr>pc_variable_after_source := (\<lambda>content name. ''set''), pc_pg_isready := True\<rparr>"
  let ?down = "ex_precheck_env\<lparr>pc_variable_after_source := (\<lambda>content name. ''set''), pc_pg_isready := False\<rparr>"
  have l1: "loaded_env_file ?set ex_project = Some [''srv'', ''project'', ''.env.production'']"
    and l2: "loaded_env_file ?down ex_project = Some [''srv'', ''project'', ''.env.production'']"
    by code_simp+
  have c1: "pc_has_command ?down ''pg_isready''"
    by code_simp
  from h1 h2 h3 h4 missing_credentials_fail_database_check [of ex_precheck_opts ex_precheck_env ex_project]
  have a: "check_database ex_precheck_opts ex_precheck_env ex_project = 1 \<and>
           fst (precheck_main ex_precheck_opts ex_precheck_env ex_project) = 1"
    by simp
  from missing_credentials_fail_database_check [of "ex_precheck_opts\<lparr>pc_CHECK_DATABASE := False\<rparr>" ex_precheck_env ex_project]
  have b: "check_database (ex_precheck_opts\<lparr>pc_CHECK_DATABASE := False\<rparr>) ex_precheck_env ex_project = 0"
    by simp
  from h1 h2 l1 missing_credentials_fail_database_check [of ex_precheck_opts ?set ex_project]
  have c: "check_database ex_precheck_opts ?set ex_project = 0"
    by simp
  from h1 h2 l2 c1 missing_credentials_fail_database_check [of ex_precheck_opts ?down ex_project]
  have d: "check_database ex_precheck_opts ?down ex_project \<noteq> 0"
    by simp
  from h1 h2 h3 h4 a b c d show ?thesis
    by simp
qed

section \<open>A source directory that does not exist\<close>

lemma load_configuration_code: "load_configuration opts env t = Some c \<Longrightarrow> c = 2"
  by (simp add: load_configuration_def split: if_splits)

text \<open>What the logging set-up of \<^verbatim>\<open>deploy.sh\<close> touches lies on the way to its log file.\<close>

lemma setup_deployment_logging_frame:
  assumes "\<not> prefix p (dp_PROJECT_ROOT env @ [''logs'', ''deployment-'' @ dp_DEPLOYMENT_ID env @ ''.log''])"
  shows "lookup (snd (setup_deployment_logging opts env t)) p = lookup t p"
proof -
  let ?d = "dp_PROJECT_ROOT env @ [''logs'']"
  let ?f = "?d @ [''deployment-'' @ dp_DEPLOYMENT_ID env @ ''.log'']"
  from assms have nf: "p \<noteq> ?f"
    by auto
  have "prefix p ?f" if "prefix p ?d"
    using prefix_prefix [OF that, of "[''deployment-'' @ dp_DEPLOYMENT_ID env @ ''.log'']"] by simp
  with assms have nd: "\<not> prefix p ?d"
    by auto
  from nd have m: "lookup (mkdir_p ?d t) p = lookup t p"
    by (simp add: lookup_mkdir_p split: option.splits)
  from nf have w: "lookup (write_file ?f c (mkdir_p ?d t)) p = lookup (mkdir_p ?d t) p" for c
    by (simp add: lookup_write_file)
  show ?thesis
    using m w by (simp add: setup_deployment_logging_def write_at_def Let_def)
qed

lemma deploy_missing_source:
  assumes missing: "\<not> is_dir t (dp_source opts env)"
    and logging: "fst (setup_deployment_logging opts env t) = None"
    and apart: "dp_dry_run opts env \<or> \<not> prefix (dp_source opts env) (dp_PROJECT_ROOT env @ [''logs''])"
  shows "deploy_main opts env t = (2, snd (setup_deployment_logging opts env t))"
proof -
  let ?d = "dp_PROJECT_ROOT env @ [''logs'']"
  let ?f = "?d @ [''deployment-'' @ dp_DEPLOYMENT_ID env @ ''.log'']"
  let ?t0 = "snd (setup_deployment_logging opts env t)"
  from missing have ne: "dp_source opts env \<noteq> []" and nd: "lookup t (dp_source opts env) \<noteq> Some Dir"
    by (auto simp add: is_dir_def)
  have still: "\<not> is_dir ?t0 (dp_source opts env)"
  proof (cases "dp_dry_run opts env")
    case True
    with missing show ?thesis
      by (simp add: setup_deployment_logging_def)
  next
    case False
    with apart have np: "\<not> prefix (dp_source opts env) ?d"
      by simp
    show ?thesis
    proof (cases "dp_source opts env = ?f")
      case True
      from False logging have "?t0 = write_file ?f ''# Directus Deployment Log'' (mkdir_p ?d t)"
        by (auto simp add: setup_deployment_logging_def write_at_def Let_def split: if_splits)
      then have "lookup ?t0 ?f = Some (File ''# Directus Deployment Log'')"
        by (simp add: lookup_write_file)
      with True show ?thesis
        by (simp add: is_dir_def)
    next
      case neq: False
      with np have "\<not> prefix (dp_source opts env) ?f"
        by (auto simp add: prefix_def append_eq_append_conv2 Cons_eq_append_conv)
      then have "lookup ?t0 (dp_source opts env) = lookup t (dp_source opts env)"
        using setup_deployment_logging_frame [of "dp_source opts env" env opts t] by simp
      with ne nd show ?thesis
        by (simp add: is_dir_def)
    qed
  qed
  obtain t0 where s: "setup_deployment_logging opts env t = (None, t0)"
    using logging by (cases "setup_deployment_logging opts env t") auto
  with still have st: "\<not> is_dir t0 (dp_source opts env)"
    by simp
  show ?thesis
  proof (cases "load_configuration opts env t0")
    case None
    with s st show ?thesis
      by (simp add: deploy_main_def validate_prerequisites_def Let_def)
  next
    case (Some c)
    then have "c = 2" by (rule load_configuration_code)
    with Some s show ?thesis
      by (simp add: deploy_main_def)
  qed
qed

lemma sync_missing_source:
  assumes "\<not> is_dir t (sc_source opts env)"
  shows "sync_main opts env t = (1, t)"
  using assms
  by (simp add: sync_main_def sc_load_config_def sc_check_prerequisites_def sc_validate_directories_def Let_def
      split: option.splits)

lemma filebackup_missing_source:
  assumes "\<not> is_dir t (bf_source opts env)"
  shows "filebackup_main opts env t = (1, t)"
  using assms by (simp add: filebackup_main_def validate_source_def)

lemma precheck_missing_source:
  assumes "\<not> is_dir t (precheck_source opts env)"
  shows "precheck_main opts env t = (1, t)"
proof -
  have "precheck_validate_directories opts env t = 1"
    using assms by (simp add: precheck_validate_directories_def Let_def)
  then have "precheck_total opts env t \<noteq> 0"
    by (simp add: precheck_total_def)
  then show ?thesis
    by (simp add: precheck_main_def)
qed

text \<open>
  C6, as the claim states it, fails: with the source \<^verbatim>\<open>/srv/missing\<close>, \<^verbatim>\<open>sync-code.sh\<close>,
  \<^verbatim>\<open>backup-files.sh\<close> and \<^verbatim>\<open>pre-deployment-checks.sh\<close> exit with status 1, not 2, and
  \<^verbatim>\<open>deploy.sh\<close>, which does exit with 2, has created its log file by then.
\<close>

theorem missing_source_counterexample:
  "\<not> is_dir ex_project (sc_source ex_sync_opts ex_sync_env) \<and>
   fst (sync_main ex_sync_opts ex_sync_env ex_project) = 1 \<and>
   fst (filebackup_main ex_filebackup_opts ex_filebackup_env ex_project) = 1 \<and>
   fst (precheck_main (ex_precheck_opts\<lparr>pc_SOURCE_DIR := [''srv'', ''missing'']\<rparr>) ex_precheck_env ex_project) = 1 \<and>
   fst (deploy_main ex_deploy_opts ex_deploy_env ex_project) = 2 \<and>
   is_file (snd (deploy_main ex_deploy_opts ex_deploy_env ex_project))
     [''srv'', ''project'', ''logs'', ''deployment-deploy-20240601-120000-4242.log''] \<and>
   \<not> is_file ex_project [''srv'', ''project'', ''logs'', ''deployment-deploy-20240601-120000-4242.log'']"
  by code_simp

text \<open>
  C6, amended. With a source directory that does not exist, \<^verbatim>\<open>sync-code.sh\<close>,
  \<^verbatim>\<open>backup-files.sh\<close> and \<^verbatim>\<open>pre-deployment-checks.sh\<close> exit with status 1 and leave the file
  system as it was. \<^verbatim>\<open>deploy.sh\<close> exits with status 2 when, besides, its logging set-up
  succeeds and the source is not \<^verbatim>\<open>PROJECT_ROOT/logs\<close> or a directory above it, which a
  live run creates before it looks at the source. A dry run of \<^verbatim>\<open>deploy.sh\<close> leaves the
  file system as it was; a live run changes nothing but the entries on the way to its
  log file.
\<close>

theorem missing_source_exit_codes:
  "(\<not> is_dir t (dp_source dopts denv) \<and> fst (setup_deployment_logging dopts denv t) = None \<and>
    (dp_dry_run dopts denv \<or> \<not> prefix (dp_source dopts denv) (dp_PROJECT_ROOT denv @ [''logs''])) \<longrightarrow>
      fst (deploy_main dopts denv t) = 2 \<and>
      (dp_dry_run dopts denv \<longrightarrow> snd (deploy_main dopts denv t) = t) \<and>
      (\<forall>p. \<not> prefix p (dp_PROJECT_ROOT denv @ [''logs'', ''deployment-'' @ dp_DEPLOYMENT_ID denv @ ''.log'']) \<longrightarrow>
           lookup (snd (deploy_main dopts denv t)) p = lookup t p)) \<and>
   (\<not> is_dir t (sc_source sopts senv) \<longrightarrow> sync_main sopts senv t = (1, t)) \<and>
   (\<not> is_dir t (bf_source fopts fenv) \<longrightarrow> filebackup_main fopts fenv t = (1, t)) \<and>
   (\<not> is_dir t (precheck_source popts penv) \<longrightarrow> precheck_main popts penv t = (1, t))"
proof -
  have d: "fst (deploy_main dopts denv t) = 2 \<and>
      (dp_dry_run dopts denv \<longrightarrow> snd (deploy_main dopts denv t) = t) \<and>
      (\<forall>p. \<not> prefix p (dp_PROJECT_ROOT denv @ [''logs'', ''deployment-'' @ dp_DEPLOYMENT_ID denv @ ''.log'']) \<longrightarrow>
           lookup (snd (deploy_main dopts denv t)) p = lookup t p)"
    if h: "\<not> is_dir t (dp_source dopts denv) \<and> fst (setup_deployment_logging dopts denv t) = None \<and>
      (dp_dry_run dopts denv \<or> \<not> prefix (dp_source dopts denv) (dp_PROJECT_ROOT denv @ [''logs'']))"
  proof -
    from h have m: "deploy_main dopts denv t = (2, snd (setup_deployment_logging dopts denv t))"
      by (simp add: deploy_missing_source)
    have dry: "dp_dry_run dopts denv \<Longrightarrow> snd (setup_deployment_logging dopts denv t) = t"
      by (simp add: setup_deployment_logging_def)
    from m dry setup_deployment_logging_frame [of _ denv dopts t] show ?thesis
      by simp
  qed
  from d sync_missing_source filebackup_missing_source precheck_missing_source show ?thesis
    by blast
qed

theorem missing_source_exit_codes_witness:
  "\<not> is_dir ex_project (dp_source ex_deploy_opts ex_deploy_env) \<and>
   fst (setup_deployment_logging ex_deploy_opts ex_deploy_env ex_project) = None \<and>
   \<not> prefix (dp_source ex_deploy_opts ex_deploy_env) (dp_PROJECT_ROOT ex_deploy_env @ [''logs'']) \<and>
   fst (deploy_main ex_deploy_opts ex_deploy_env ex_project) = 2 \<and>
   \<not> prefix [''srv'', ''project'', ''package.json'']
       (dp_PROJECT_ROOT ex_deploy_env @ [''logs'', ''deployment-'' @ dp_DEPLOYMENT_ID ex_deploy_env @ ''.log'']) \<and>
   lookup (snd (deploy_main ex_deploy_opts ex_deploy_env ex_project)) [''srv'', ''project'', ''package.json''] =
     lookup ex_project [''srv'', ''project'', ''package.json''] \<and>
   \<not> is_dir ex_project (sc_source ex_sync_opts ex_sync_env) \<and>
   sync_main ex_sync_opts ex_sync_env ex_project = (1, ex_project) \<and>
   \<not> is_dir ex_project (bf_source ex_filebackup_opts ex_filebackup_env) \<and>
   filebackup_main ex_filebackup_opts ex_filebackup_env ex_project = (1, ex_project) \<and>
   \<not> is_dir ex_project (precheck_source (ex_precheck_opts\<lparr>pc_SOURCE_DIR := [''srv'', ''missing'']\<rparr>) ex_precheck_env) \<and>
   precheck_main (ex_precheck_opts\<lparr>pc_SOURCE_DIR := [''srv'', ''missing'']\<rparr>) ex_precheck_env ex_project =
     (1, ex_project)"
proof -
  have d1: "\<not> is_dir ex_project (dp_source ex_deploy_opts ex_deploy_env)"
    by code_simp
  have d2: "fst (setup_deployment_logging ex_deploy_opts ex_deploy_env ex_project) = None"
    by code_simp
  have d3: "\<not> prefix (dp_source ex_deploy_opts ex_deploy_env) (dp_PROJECT_ROOT ex_deploy_env @ [''logs''])"
    by code_simp
  have d4: "\<not> prefix [''srv'', ''project'', ''package.json'']
       (dp_PROJECT_ROOT ex_deploy_env @ [''logs'', ''deployment-'' @ dp_DEPLOYMENT_ID ex_deploy_env @ ''.log''])"
    by code_simp
  have s: "\<not> is_dir ex_project (sc_source ex_sync_opts ex_sync_env)"
    by code_simp
  have f: "\<not> is_dir ex_project (bf_source ex_filebackup_opts ex_filebackup_env)"
    by code_simp
  have p: "\<not> is_dir ex_project (precheck_source (ex_precheck_opts\<lparr>pc_SOURCE_DIR := [''srv'', ''missing'']\<rparr>) ex_precheck_env)"
    by code_simp
  from d1 d2 d3 d4 s f p
    missing_source_exit_codes [of ex_project ex_deploy_opts ex_deploy_env ex_sync_opts ex_sync_env
      ex_filebackup_opts ex_filebackup_env "ex_precheck_opts\<lparr>pc_SOURCE_DIR := [''srv'', ''missing'']\<rparr>" ex_precheck_env]
  show ?thesis by simp
qed

section \<open>Properties of backup-files.sh\<close>

text \<open>
  C5. The uploads directory holds \<^verbatim>\<open>a.jpg\<close> and the system file \<^verbatim>\<open>.DS_Store\<close>, which the
  backup excludes. The backup succeeds; \<^verbatim>\<open>count_files\<close> prints 2 and that is the
  \<^verbatim>\<open>file_count\<close> in \<^verbatim>\<open>backup-metadata.json\<close>; a scan of the \<^verbatim>\<open>files/\<close> payload finds 1 file.
\<close>

theorem file_count_counts_the_source:
  "fst (filebackup_main ex_uploads_backup_opts ex_filebackup_env ex_project) = 0 \<and>
   capture (count_files ex_uploads_backup_opts ex_filebackup_env
              (snd (filebackup_main ex_uploads_backup_opts ex_filebackup_env ex_project))) = ''2'' \<and>
   heredoc_value ''file_count''
     (file_content (snd (filebackup_main ex_uploads_backup_opts ex_filebackup_env ex_project))
        (ex_uploads_backup_dir @ [''backup-metadata.json''])) = ''2'' \<and>
   count_type_f (snd (filebackup_main ex_uploads_backup_opts ex_filebackup_env ex_project))
     (ex_uploads_backup_dir @ [''files'']) = 1"
  by code_simp

section \<open>Preserved directories\<close>

text \<open>
  C1. Two runs in which the content under \<^verbatim>\<open>uploads/\<close> of the target is not what it was.
  A forced rollback from the backup whose payload is wrapped in \<^verbatim>\<open>files/\<close> succeeds and
  leaves \<^verbatim>\<open>uploads/a.png\<close> with the old bytes of the backup, and \<^verbatim>\<open>uploads/b.png\<close> is no
  longer there (the current uploads were copied inside the restored directory, as
  \<^verbatim>\<open>uploads/uploads\<close>). And \<^verbatim>\<open>promote_staging\<close>, given the staging directory, succeeds and
  leaves a target without any \<^verbatim>\<open>uploads/\<close>: the old tree was moved aside as a whole.
\<close>

theorem preserved_directories_are_replaced:
  "file_content ex_wrapped [''srv'', ''www'', ''uploads'', ''a.png''] = ''A'' \<and>
   is_file ex_wrapped [''srv'', ''www'', ''uploads'', ''b.png''] \<and>
   fst (rollback_main ex_rollback_opts ex_rollback_env ex_wrapped) = 0 \<and>
   file_content (snd (rollback_main ex_rollback_opts ex_rollback_env ex_wrapped))
     [''srv'', ''www'', ''uploads'', ''a.png''] = ''A-old'' \<and>
   \<not> is_file (snd (rollback_main ex_rollback_opts ex_rollback_env ex_wrapped))
     [''srv'', ''www'', ''uploads'', ''b.png''] \<and>
   is_file ex_staged [''srv'', ''www'', ''uploads'', ''a.png''] \<and>
   fst (promote_staging ex_staged_opts ex_sync_env ''/srv/project/deployment-staging'' ex_staged) = 0 \<and>
   \<not> is_dir (snd (promote_staging ex_staged_opts ex_sync_env ''/srv/project/deployment-staging'' ex_staged))
     [''srv'', ''www'', ''uploads''] \<and>
   \<not> is_file (snd (promote_staging ex_staged_opts ex_sync_env ''/srv/project/deployment-staging'' ex_staged))
     [''srv'', ''www'', ''uploads'', ''a.png'']"
  by code_simp

section \<open>Properties of backup-database.sh\<close>

text \<open>Whether a write succeeds depends on the shape of the file system only.\<close>

lemma lookup_shape:
  "shape t = shape t' \<Longrightarrow> map_option (\<lambda>e. e = Dir) (lookup t p) = map_option (\<lambda>e. e = Dir) (lookup t' p)"
proof -
  assume "shape t = shape t'"
  then have "map_of (shape t) p = map_of (shape t') p" by simp
  then show ?thesis
    by (simp add: shape_def lookup_def map_of_map)
qed

lemma is_dir_shape:
  assumes "shape t = shape t'"
  shows "is_dir t p = is_dir t' p"
proof -
  have a: "(lookup t p = Some Dir) = (map_option (\<lambda>e. e = Dir) (lookup t p) = Some True)"
    by (cases "lookup t p") auto
  have b: "(lookup t' p = Some Dir) = (map_option (\<lambda>e. e = Dir) (lookup t' p) = Some True)"
    by (cases "lookup t' p") auto
  show ?thesis
    by (simp only: is_dir_def a b lookup_shape [OF assms, of p])
qed

lemma shape_write_file_eq:
  "shape (write_file p c t) = filter (\<lambda>(q, b). q \<noteq> p) (shape t) @ [(p, False)]"
  by (induction t) (auto simp add: write_file_def overwrite_def shape_def)

lemma shape_write_file:
  "shape t = shape t' \<Longrightarrow> shape (write_file p c t) = shape (write_file p c' t')"
  by (simp add: shape_write_file_eq)

lemma write_at_shape:
  assumes "shape t = shape t'"
  shows "fst (write_at p c t) = fst (write_at p c' t') \<and> shape (snd (write_at p c t)) = shape (snd (write_at p c' t'))"
  using assms is_dir_shape [OF assms] shape_write_file [OF assms]
  by (simp add: write_at_def)

text \<open>
  Two runs of \<^verbatim>\<open>create_database_dump\<close> that differ in the bytes of the dump end alike; of
  the two lines logged, only the second, the size reported by \<^verbatim>\<open>du\<close>, can differ.
\<close>

lemma create_database_dump_shape:
  assumes "shape t = shape t'"
  shows "(case (create_database_dump (env\<lparr>bd_pg_dump := (s, d)\<rparr>) b t,
               create_database_dump (env\<lparr>bd_pg_dump := (s, d')\<rparr>) b t') of
            (Inl (c1, u1), Inl (c2, u2)) \<Rightarrow> c1 = c2
          | (Inr (o1, u1), Inr (o2, u2)) \<Rightarrow>
              shape u1 = shape u2 \<and>
              (\<exists>size1 size2. o1 = [log_line (bd_clock env) (''Database backup completed: '' @ b @ ''/database.sql''),
                                    log_line (bd_clock env) (''Backup size: '' @ size1)] \<and>
                              o2 = [log_line (bd_clock env) (''Database backup completed: '' @ b @ ''/database.sql''),
                                    log_line (bd_clock env) (''Backup size: '' @ size2)])
          | _ \<Rightarrow> False)"
proof (cases "s = 0")
  case False
  then show ?thesis by (simp add: create_database_dump_def Let_def)
next
  case True
  let ?df = "parse_path (bd_cwd env) (b @ ''/database.sql'')"
  let ?mf = "parse_path (bd_cwd env) (b @ ''/backup-metadata.json'')"
  obtain s1 t1 where w1: "write_at ?df d t = (s1, t1)" by (cases "write_at ?df d t")
  obtain s1' t1' where w1': "write_at ?df d' t' = (s1', t1')" by (cases "write_at ?df d' t'")
  from write_at_shape [OF assms, of ?df d d'] w1 w1' have e1: "s1 = s1'" "shape t1 = shape t1'" by simp_all
  let ?m = "database_metadata (env\<lparr>bd_pg_dump := (s, d)\<rparr>) d"
  let ?m' = "database_metadata (env\<lparr>bd_pg_dump := (s, d')\<rparr>) d'"
  obtain s2 t2 where w2: "write_at ?mf ?m t1 = (s2, t2)" by (cases "write_at ?mf ?m t1")
  obtain s2' t2' where w2': "write_at ?mf ?m' t1' = (s2', t2')" by (cases "write_at ?mf ?m' t1'")
  from write_at_shape [OF e1(2), of ?mf ?m ?m'] w2 w2' have e2: "s2 = s2'" "shape t2 = shape t2'" by simp_all
  from True w1 w1' w2 w2' e1 e2 show ?thesis
    by (auto simp add: create_database_dump_def Let_def)
qed

lemma size_line_filtered:
  "filter (\<lambda>l. \<not> prefix (''['' @ clock @ ''] Backup size: '') l)
     [log_line clock (''Database backup completed: '' @ x), log_line clock (''Backup size: '' @ y)] =
   [log_line clock (''Database backup completed: '' @ x)]"
  by (simp add: log_line_def)

lemma other_lines_kept:
  "\<not> prefix (''['' @ clock @ ''] Backup size: '') (log_line clock (''Starting database backup: '' @ x))"
  "\<not> prefix (''['' @ clock @ ''] Backup size: '') (log_line clock ''Database backup completed successfully!'')"
  "\<not> prefix (''['' @ clock @ ''] Backup size: '') (log_line clock (''Backup location: '' @ x))"
  by (simp_all add: log_line_def)

lemma dump_bytes_do_not_matter:
  "fst (dbbackup_main opts (env\<lparr>bd_pg_dump := (s, d)\<rparr>) t) = fst (dbbackup_main opts (env\<lparr>bd_pg_dump := (s, d')\<rparr>) t) \<and>
   filter (\<lambda>l. \<not> prefix (''['' @ bd_clock env @ ''] Backup size: '') l)
     (snd (snd (dbbackup_main opts (env\<lparr>bd_pg_dump := (s, d)\<rparr>) t))) =
   filter (\<lambda>l. \<not> prefix (''['' @ bd_clock env @ ''] Backup size: '') l)
     (snd (snd (dbbackup_main opts (env\<lparr>bd_pg_dump := (s, d')\<rparr>) t)))"
proof -
  let ?e = "env\<lparr>bd_pg_dump := (s, d)\<rparr>" and ?e' = "env\<lparr>bd_pg_dump := (s, d')\<rparr>"
  have pre: "bd_check_prerequisites ?e = bd_check_prerequisites ?e'"
    by (simp add: bd_check_prerequisites_def)
  have con: "test_connection opts ?e = test_connection opts ?e'"
    by (simp add: test_connection_def)
  have dir: "bd_create_backup_directory opts ?e t = bd_create_backup_directory opts ?e' t"
    by (simp add: bd_create_backup_directory_def BACKUP_NAME_def)
  obtain ls t1 where d1: "bd_create_backup_directory opts ?e t = (ls, t1)"
    by (cases "bd_create_backup_directory opts ?e t")
  with dir have d1': "bd_create_backup_directory opts ?e' t = (ls, t1)" by simp
  have sum: "\<And>u u'. shape u = shape u' \<Longrightarrow>
      fst (bd_create_backup_summary ?e (capture ls) u) = fst (bd_create_backup_summary ?e' (capture ls) u')"
    using write_at_shape by (simp add: bd_create_backup_summary_def BACKUP_NAME_def)
  have dump: "(case (create_database_dump ?e (capture ls) t1, create_database_dump ?e' (capture ls) t1) of
            (Inl (c1, u1), Inl (c2, u2)) \<Rightarrow> c1 = c2
          | (Inr (o1, u1), Inr (o2, u2)) \<Rightarrow>
              shape u1 = shape u2 \<and>
              (\<exists>size1 size2. o1 = [log_line (bd_clock env) (''Database backup completed: '' @ capture ls @ ''/database.sql''),
                                    log_line (bd_clock env) (''Backup size: '' @ size1)] \<and>
                              o2 = [log_line (bd_clock env) (''Database backup completed: '' @ capture ls @ ''/database.sql''),
                                    log_line (bd_clock env) (''Backup size: '' @ size2)])
          | _ \<Rightarrow> False)"
    by (rule create_database_dump_shape) simp
  show ?thesis
  proof (cases "create_database_dump ?e (capture ls) t1")
    case (Inl a)
    then obtain c1 u1 where l: "create_database_dump ?e (capture ls) t1 = Inl (c1, u1)" by (cases a) simp
    with dump obtain u2 where l': "create_database_dump ?e' (capture ls) t1 = Inl (c1, u2)"
      by (cases "create_database_dump ?e' (capture ls) t1") (auto split: prod.splits)
    from pre con d1 d1' l l' show ?thesis
      by (simp add: dbbackup_main_def Let_def BACKUP_NAME_def split: option.splits)
  next
    case (Inr b)
    then obtain o1 u1 where r: "create_database_dump ?e (capture ls) t1 = Inr (o1, u1)" by (cases b) simp
    with dump obtain o2 u2 where r': "create_database_dump ?e' (capture ls) t1 = Inr (o2, u2)"
      and sh: "shape u1 = shape u2"
      and os: "\<exists>size1 size2. o1 = [log_line (bd_clock env) (''Database backup completed: '' @ capture ls @ ''/database.sql''),
                                    log_line (bd_clock env) (''Backup size: '' @ size1)] \<and>
                              o2 = [log_line (bd_clock env) (''Database backup completed: '' @ capture ls @ ''/database.sql''),
                                    log_line (bd_clock env) (''Backup size: '' @ size2)]"
      by (cases "create_database_dump ?e' (capture ls) t1") (auto split: prod.splits)
    from os have fo: "filter (\<lambda>l. \<not> prefix (''['' @ bd_clock env @ ''] Backup size: '') l) o1 =
                      filter (\<lambda>l. \<not> prefix (''['' @ bd_clock env @ ''] Backup size: '') l) o2"
      using size_line_filtered by auto
    obtain s3 t3 where w3: "bd_create_backup_summary ?e (capture ls) u1 = (s3, t3)"
      by (cases "bd_create_backup_summary ?e (capture ls) u1")
    obtain s3' t3' where w3': "bd_create_backup_summary ?e' (capture ls) u2 = (s3', t3')"
      by (cases "bd_create_backup_summary ?e' (capture ls) u2")
    from sum [OF sh] w3 w3' have "s3 = s3'" by simp
    with w3 w3' pre con d1 d1' r r' fo show ?thesis
      by (simp add: dbbackup_main_def Let_def BACKUP_NAME_def other_lines_kept split: option.splits)
  qed
qed

lemma failing_pg_dump_fails_backup:
  assumes "is_file t (bd_PROJECT_ROOT env @ [''.env.production''])"
    and "bd_check_prerequisites env = None" "test_connection opts env = None"
    and "\<not> bd_DRY_RUN opts" "fst (bd_pg_dump env) \<noteq> 0"
  shows "fst (dbbackup_main opts env t) = fst (bd_pg_dump env)"
  using assms
  by (simp add: dbbackup_main_def create_database_dump_def Let_def split: prod.splits)

lemma create_database_dump_status: "create_database_dump env b t = Inl (c, u) \<Longrightarrow> c \<noteq> 0"
  by (auto simp add: create_database_dump_def Let_def split: if_splits prod.splits)

lemma live_success_is_reported:
  assumes "\<not> bd_DRY_RUN opts" "fst (dbbackup_main opts env t) = 0"
  shows "''['' @ bd_clock env @ ''] Database backup completed successfully!'' \<in> set (snd (snd (dbbackup_main opts env t)))"
proof -
  obtain ls t1 where d1: "bd_create_backup_directory opts env t = (ls, t1)"
    by (cases "bd_create_backup_directory opts env t")
  show ?thesis
  proof (cases "create_database_dump env (capture ls) t1")
    case (Inl a)
    then obtain c u where l: "create_database_dump env (capture ls) t1 = Inl (c, u)" by (cases a) simp
    then have "c \<noteq> 0" by (rule create_database_dump_status)
    with assms d1 l show ?thesis
      by (auto simp add: dbbackup_main_def bd_check_prerequisites_def test_connection_def Let_def
          split: if_splits option.splits)
  next
    case (Inr b)
    then obtain o1 u where r: "create_database_dump env (capture ls) t1 = Inr (o1, u)" by (cases b) simp
    obtain s3 t3 where w3: "bd_create_backup_summary env (capture ls) u = (s3, t3)"
      by (cases "bd_create_backup_summary env (capture ls) u")
    with assms d1 r show ?thesis
      by (auto simp add: dbbackup_main_def bd_check_prerequisites_def test_connection_def Let_def log_line_def
          split: if_splits option.splits)
  qed
qed

text \<open>
  C2, as the claim states it, fails: \<^verbatim>\<open>pg_dump\<close> exits with status 0 and leaves a dump of
  zero bytes; the script exits with status 0 and its log ends with the lines that report
  the backup as completed successfully.
\<close>

theorem empty_dump_counterexample:
  "bd_pg_dump ex_dbbackup_env = (0, []) \<and>
   fst (dbbackup_main ex_dbbackup_opts ex_dbbackup_env ex_project) = 0 \<and>
   is_file (fst (snd (dbbackup_main ex_dbbackup_opts ex_dbbackup_env ex_project))) (ex_dbbackup_dir @ [''database.sql'']) \<and>
   length (file_content (fst (snd (dbbackup_main ex_dbbackup_opts ex_dbbackup_env ex_project)))
             (ex_dbbackup_dir @ [''database.sql''])) = 0 \<and>
   last (snd (snd (dbbackup_main ex_dbbackup_opts ex_dbbackup_env ex_project))) =
     ''[2024-06-01 12:00:00] Backup location: /srv/project/backups/directus-db-backup-2024-06-01T12-00-00'' \<and>
   ''[2024-06-01 12:00:00] Database backup completed successfully!'' \<in>
     set (snd (snd (dbbackup_main ex_dbbackup_opts ex_dbbackup_env ex_project)))"
  by code_simp

text \<open>
  C2, amended. A live run that gets as far as \<^verbatim>\<open>pg_dump\<close> exits with the status of
  \<^verbatim>\<open>pg_dump\<close> when that is not 0. No branch looks at the size of the dump: for the same
  \<^verbatim>\<open>pg_dump\<close> status, a zero-byte dump leads to the same exit status as any other dump
  and to the same log lines, but for the line \<^verbatim>\<open>Backup size:\<close>, which prints what \<^verbatim>\<open>du\<close>
  reports. And every live run that exits with status 0 has logged that the backup
  completed successfully.
\<close>

theorem dump_size_is_never_examined:
  "(is_file t (bd_PROJECT_ROOT env @ [''.env.production'']) \<and> bd_check_prerequisites env = None \<and>
    test_connection opts env = None \<and> \<not> bd_DRY_RUN opts \<and> fst (bd_pg_dump env) \<noteq> 0 \<longrightarrow>
      fst (dbbackup_main opts env t) = fst (bd_pg_dump env)) \<and>
   fst (dbbackup_main opts (env\<lparr>bd_pg_dump := (s, [])\<rparr>) t) =
     fst (dbbackup_main opts (env\<lparr>bd_pg_dump := (s, dump)\<rparr>) t) \<and>
   filter (\<lambda>l. \<not> prefix (''['' @ bd_clock env @ ''] Backup size: '') l)
     (snd (snd (dbbackup_main opts (env\<lparr>bd_pg_dump := (s, [])\<rparr>) t))) =
   filter (\<lambda>l. \<not> prefix (''['' @ bd_clock env @ ''] Backup size: '') l)
     (snd (snd (dbbackup_main opts (env\<lparr>bd_pg_dump := (s, dump)\<rparr>) t))) \<and>
   (\<not> bd_DRY_RUN opts \<and> fst (dbbackup_main opts env t) = 0 \<longrightarrow>
      ''['' @ bd_clock env @ ''] Database backup completed successfully!'' \<in> set (snd (snd (dbbackup_main opts env t))))"
  using failing_pg_dump_fails_backup [where t = t and env = env and opts = opts]
    dump_bytes_do_not_matter [where opts = opts and env = env and s = s and d = "[]" and t = t and d' = dump]
    live_success_is_reported [where opts = opts and env = env and t = t]
  by blast

theorem dump_size_is_never_examined_witness:
  "is_file ex_project (bd_PROJECT_ROOT (ex_dbbackup_env\<lparr>bd_pg_dump := (1, [])\<rparr>) @ [''.env.production'']) \<and>
   bd_check_prerequisites (ex_dbbackup_env\<lparr>bd_pg_dump := (1, [])\<rparr>) = None \<and>
   test_connection ex_dbbackup_opts (ex_dbbackup_env\<lparr>bd_pg_dump := (1, [])\<rparr>) = None \<and>
   \<not> bd_DRY_RUN ex_dbbackup_opts \<and>
   fst (dbbackup_main ex_dbbackup_opts (ex_dbbackup_env\<lparr>bd_pg_dump := (1, [])\<rparr>) ex_project) = 1 \<and>
   fst (dbbackup_main ex_dbbackup_opts (ex_dbbackup_env\<lparr>bd_pg_dump := (0, [])\<rparr>) ex_project) =
     fst (dbbackup_main ex_dbbackup_opts (ex_dbbackup_env\<lparr>bd_pg_dump := (0, ''-- PostgreSQL database dump'')\<rparr>) ex_project) \<and>
   fst (dbbackup_main ex_dbbackup_opts ex_dbbackup_env ex_project) = 0 \<and>
   ''[2024-06-01 12:00:00] Database backup completed successfully!'' \<in>
     set (snd (snd (dbbackup_main ex_dbbackup_opts ex_dbbackup_env ex_project))) \<and>
   ''[2024-06-01 12:00:00] Backup size: 0'' \<in>
     set (snd (snd (dbbackup_main ex_dbbackup_opts ex_dbbackup_env ex_project))) \<and>
   ''[2024-06-01 12:00:00] Backup size: 4.0K'' \<in>
     set (snd (snd (dbbackup_main ex_dbbackup_opts
       (ex_dbbackup_env\<lparr>bd_pg_dump := (0, ''-- PostgreSQL database dump'')\<rparr>) ex_project)))"
proof -
  let ?e = "ex_dbbackup_env\<lparr>bd_pg_dump := (1, [])\<rparr>"
  have h1: "is_file ex_project (bd_PROJECT_ROOT ?e @ [''.env.production''])"
    by code_simp
  have h2: "bd_check_prerequisites ?e = None"
    by code_simp
  have h3: "test_connection ex_dbbackup_opts ?e = None"
    by code_simp
  have h4: "\<not> bd_DRY_RUN ex_dbbackup_opts"
    by (simp add: ex_dbbackup_opts_def)
  have h5: "fst (bd_pg_dump ?e) \<noteq> 0"
    by simp
  have h6: "fst (dbbackup_main ex_dbbackup_opts ex_dbbackup_env ex_project) = 0"
    by code_simp
  have clock: "bd_clock ex_dbbackup_env = ''2024-06-01 12:00:00''"
    by (simp add: ex_dbbackup_env_def)
  have sizes: "''[2024-06-01 12:00:00] Backup size: 0'' \<in>
     set (snd (snd (dbbackup_main ex_dbbackup_opts ex_dbbackup_env ex_project))) \<and>
   ''[2024-06-01 12:00:00] Backup size: 4.0K'' \<in>
     set (snd (snd (dbbackup_main ex_dbbackup_opts
       (ex_dbbackup_env\<lparr>bd_pg_dump := (0, ''-- PostgreSQL database dump'')\<rparr>) ex_project)))"
    by code_simp
  from h1 h2 h3 h4 h5
    dump_size_is_never_examined [where t = ex_project and env = ?e and opts = ex_dbbackup_opts and s = 0
      and dump = "''-- PostgreSQL database dump''"]
  have a: "fst (dbbackup_main ex_dbbackup_opts ?e ex_project) = 1 \<and>
     fst (dbbackup_main ex_dbbackup_opts (ex_dbbackup_env\<lparr>bd_pg_dump := (0, [])\<rparr>) ex_project) =
     fst (dbbackup_main ex_dbbackup_opts (ex_dbbackup_env\<lparr>bd_pg_dump := (0, ''-- PostgreSQL database dump'')\<rparr>) ex_project)"
    by simp
  from h4 h6 clock
    dump_size_is_never_examined [where t = ex_project and env = ex_dbbackup_env and opts = ex_dbbackup_opts]
  have b: "''[2024-06-01 12:00:00] Database backup completed successfully!'' \<in>
     set (snd (snd (dbbackup_main ex_dbbackup_opts ex_dbbackup_env ex_project)))"
    by simp
  from h1 h2 h3 h4 h6 a b sizes show ?thesis
    by simp
qed

section \<open>Properties of deploy-extensions.sh\<close>

















text \<open>
  C8. The plugins root holds \<^verbatim>\<open>ai\<close>, \<^verbatim>\<open>broken\<close> (no \<^verbatim>\<open>package.json\<close>) and \<^verbatim>\<open>search\<close>. Without
  \<^verbatim>\<open>--verbose\<close> the run does what the claim says: it exits with status 1, reports \<^verbatim>\<open>broken\<close>,
  goes on to \<^verbatim>\<open>search\<close>, closes with the aggregate error line, and \<^verbatim>\<open>ai\<close> and \<^verbatim>\<open>search\<close> are
  deployed. The same run with \<^verbatim>\<open>--verbose\<close> exits with status 1 and announces the same
  plugins, but deploys neither of the other two: \<^verbatim>\<open>search\<close> has no \<^verbatim>\<open>package.json\<close> in the
  target, and \<^verbatim>\<open>ai\<close> still has its old one and the file \<^verbatim>\<open>old.js\<close>. Each run is given by
  its exit status, its recorded output, and the entries of five paths of the target.
\<close>

theorem verbose_run_deploys_no_plugin:
  "scan_extensions ex_extensions_opts ex_plugins = Some [''ai'', ''broken'', ''search''] \<and>
   \<not> is_file ex_plugins [''srv'', ''project'', ''extensions'', ''broken'', ''package.json''] \<and>
   (case extensions_main ex_extensions_opts ex_extensions_env ex_plugins of
      (status, t, out) \<Rightarrow>
        (status, out,
         map (lookup t)
           [[''srv'', ''www'', ''extensions'', ''search'', ''package.json''],
            [''srv'', ''www'', ''extensions'', ''ai'', ''package.json''],
            [''srv'', ''www'', ''extensions'', ''ai'', ''index.js''],
            [''srv'', ''www'', ''extensions'', ''ai'', ''old.js''],
            [''srv'', ''www'', ''extensions'', ''broken'']])) =
     (1,
      [''[2024-06-01 12:00:00] Deploying extension: ai'',
       ''[2024-06-01 12:00:00] Deploying extension: broken'',
       ''[2024-06-01 12:00:00] ERROR: Extension broken missing package.json'',
       ''[2024-06-01 12:00:00] ERROR: Extension validation failed: broken'',
       ''[2024-06-01 12:00:00] ERROR: Failed to deploy extension: broken'',
       ''[2024-06-01 12:00:00] Deploying extension: search'',
       ''[2024-06-01 12:00:00] ERROR: Failed to deploy extensions: broken'',
       ''[2024-06-01 12:00:00] ERROR: Extension deployment completed with errors''],
      [Some (File ''search 1.0''), Some (File ''ai 2.0''), Some (File ''new code''), None, None]) \<and>
   (case extensions_main (ex_extensions_opts\<lparr>de_VERBOSE := True\<rparr>) ex_extensions_env ex_plugins of
      (status, t, out) \<Rightarrow>
        (status, out,
         map (lookup t)
           [[''srv'', ''www'', ''extensions'', ''search'', ''package.json''],
            [''srv'', ''www'', ''extensions'', ''ai'', ''package.json''],
            [''srv'', ''www'', ''extensions'', ''ai'', ''index.js''],
            [''srv'', ''www'', ''extensions'', ''ai'', ''old.js''],
            [''srv'', ''www'', ''extensions'', ''broken'']])) =
     (1,
      [''[2024-06-01 12:00:00] Deploying extension: ai'',
       ''[2024-06-01 12:00:00] Deploying extension: broken'',
       ''[2024-06-01 12:00:00] ERROR: Extension broken missing package.json'',
       ''[2024-06-01 12:00:00] ERROR: Extension validation failed: broken'',
       ''[2024-06-01 12:00:00] ERROR: Failed to deploy extension: broken'',
       ''[2024-06-01 12:00:00] Deploying extension: search'',
       ''[2024-06-01 12:00:00] ERROR: Failed to deploy extensions: broken search'',
       ''[2024-06-01 12:00:00] ERROR: Extension deployment completed with errors''],
      [None, Some (File ''ai 1.0''), None, Some (File ''stale''), None])"
  by code_simp

end
